theory Spec2Isabelle
  imports Complex_Main
begin

section \<open>Data model of \<open>hippopt.base.opti_solver\<close>\<close>

text \<open>
  The module \<open>src/hippopt/base/opti_solver.py\<close> defines the dataclass \<open>OptiSolver\<close>.
  It walks Python values by reflection, so the embedding needs a universe of the Python
  values that the walks can meet:
  \<^item> \<open>PNone\<close>, \<open>PFloat\<close>, \<open>PStr\<close>: \<open>None\<close>, a Python float, a string;
  \<^item> \<open>PArray\<close>: a \<open>numpy.ndarray\<close> with its shape tuple and its entries (reals stand
    for the floats; the code never computes with the entries);
  \<^item> \<open>PMX\<close>: a \<open>casadi.MX\<close> expression;
  \<^item> \<open>PList\<close>: a Python list;
  \<^item> \<open>PDict\<close>: a dict with string keys, as \<open>dataclasses.asdict\<close> builds;
  \<^item> \<open>PObj\<close>: an instance of a dataclass deriving \<open>OptimizationObject\<close>, as the ordered
    list of its fields (\<open>dataclasses.fields\<close>), each with its name, the entry of its metadata
    under \<open>OptimizationObject.StorageTypeField\<close> (\<open>None\<close> when the key is not in the
    metadata) and its current value.
\<close>

datatype storage_type = Variable | Parameter | OtherStorage string

datatype mx = MXSym nat nat nat | MXConst real | MXAdd mx mx | MXMul mx mx

datatype ndarray = NDArray (nd_shape: "nat list") (nd_data: "real list")

datatype pyval =
    PNone
  | PFloat real
  | PStr string
  | PArray ndarray
  | PMX mx
  | PList "pyval list"
  | PDict "(string \<times> pyval) list"
  | PObj "field list"
and field = DField (fname: string) (fmeta: "storage_type option") (fvalue: pyval)

text \<open>
  Every \<open>raise\<close> of the module and every exception of the Python runtime that the walks can
  trigger is a value of \<open>error\<close>. \<open>EngineError\<close> is a failure raised inside the casadi
  engine, \<open>NotImplementedError\<close> the error of casadi's binding for an argument that it
  cannot convert.
\<close>

datatype error =
    ValueError string
  | AttributeError string
  | TypeError string
  | IndexError
  | AxisError
  | AssertionError
  | RecursionError
  | NotImplementedError
  | SolutionNotAvailableException
  | ProblemNotRegisteredException
  | EngineError string

subsection \<open>The engine, \<open>casadi.Opti\<close>\<close>

text \<open>
  The engine is not part of the repository. Its state is modelled by what the module
  hands to it: the symbols it was asked to create (a symbol's identifier is its position in
  \<open>declared\<close>), the initial values and parameter values pushed, the objective and the
  constraints.
\<close>

record opti =
  declared :: "(storage_type \<times> nat \<times> nat) list"
  initial_store :: "(mx \<times> ndarray) list"
  value_store :: "(mx \<times> ndarray) list"
  objective :: "mx option"
  constraints :: "mx list"

definition new_opti :: opti where
  "new_opti = \<lparr>declared = [], initial_store = [], value_store = [],
     objective = None, constraints = []\<rparr>"

text \<open>
  The numerical side of the engine is a parameter of the model: whether \<open>Opti.minimize\<close>
  raises on the expression it is given (\<open>Some msg\<close>) or takes it, what \<open>Opti.solve\<close>
  returns or raises, and what \<open>OptiSol.value\<close> returns or raises. \<open>'sol\<close> is the type of
  \<open>casadi.OptiSol\<close>.
\<close>

record 'sol nlp =
  nlp_minimize :: "mx \<Rightarrow> string option"
  nlp_solve :: "opti \<Rightarrow> string + 'sol"
  nlp_value :: "'sol \<Rightarrow> pyval \<Rightarrow> string + ndarray"

text \<open>The shape of an \<open>MX\<close>; a scalar operand is broadcast.\<close>

fun mx_shape :: "mx \<Rightarrow> nat list" where
  "mx_shape (MXSym i r c) = [r, c]"
| "mx_shape (MXConst x) = [1, 1]"
| "mx_shape (MXAdd a b) = (if mx_shape a = [1, 1] then mx_shape b else mx_shape a)"
| "mx_shape (MXMul a b) = (if mx_shape a = [1, 1] then mx_shape b else mx_shape a)"

text \<open>The value of a scalar expression where \<open>env\<close> gives the value of each symbol.\<close>

fun mx_eval :: "(nat \<Rightarrow> real) \<Rightarrow> mx \<Rightarrow> real" where
  "mx_eval env (MXSym i r c) = env i"
| "mx_eval env (MXConst x) = x"
| "mx_eval env (MXAdd a b) = mx_eval env a + mx_eval env b"
| "mx_eval env (MXMul a b) = mx_eval env a * mx_eval env b"

subsection \<open>The session, \<open>OptiSolver\<close>\<close>

text \<open>
  The dataclass fields of \<open>OptiSolver\<close> that the operations below read or write. An
  attribute whose Python default is \<open>None\<close> and that holds a Python value is a \<open>pyval\<close>
  starting at \<open>PNone\<close>; \<open>_cost\<close> and \<open>_opti_solution\<close> are options.
\<close>

record 'sol opti_solver =
  cost :: "mx option"
  solver :: opti
  opti_solution :: "'sol option"
  output_solution :: pyval
  output_cost :: "ndarray option"
  variables :: pyval

definition post_init :: "'sol opti_solver" where
  "post_init = \<lparr>cost = None, solver = new_opti, opti_solution = None,
     output_solution = PNone, output_cost = None, variables = PNone\<rparr>"

subsection \<open>\<open>dataclasses.asdict\<close> and \<open>copy.deepcopy\<close> on values\<close>

text \<open>
  \<open>dataclasses.asdict(obj)[name]\<close> is \<open>_asdict_inner\<close> of the field's value: a dataclass
  instance becomes a dict, a list and a dict are rebuilt, anything else is deep-copied.
  On immutable values a deep copy is the value itself.
\<close>

definition deepcopy :: "pyval \<Rightarrow> pyval" where
  "deepcopy v = v"

fun asdict_inner :: "pyval \<Rightarrow> pyval"
and asdict_list :: "pyval list \<Rightarrow> pyval list"
and asdict_items :: "(string \<times> pyval) list \<Rightarrow> (string \<times> pyval) list"
and asdict_fields :: "field list \<Rightarrow> (string \<times> pyval) list" where
  "asdict_inner (PObj fs) = PDict (asdict_fields fs)"
| "asdict_inner (PList xs) = PList (asdict_list xs)"
| "asdict_inner (PDict kvs) = PDict (asdict_items kvs)"
| "asdict_inner PNone = deepcopy PNone"
| "asdict_inner (PFloat x) = deepcopy (PFloat x)"
| "asdict_inner (PStr x) = deepcopy (PStr x)"
| "asdict_inner (PArray a) = deepcopy (PArray a)"
| "asdict_inner (PMX m) = deepcopy (PMX m)"
| "asdict_list [] = []"
| "asdict_list (x # xs) = asdict_inner x # asdict_list xs"
| "asdict_items [] = []"
| "asdict_items ((k, v) # kvs) = (k, asdict_inner v) # asdict_items kvs"
| "asdict_fields [] = []"
| "asdict_fields (DField n m v # fs) = (n, asdict_inner v) # asdict_fields fs"

text \<open>\<open>isinstance(v, OptimizationObject)\<close>, \<open>isinstance(v, list)\<close>.\<close>

fun is_optimization_object :: "pyval \<Rightarrow> bool" where
  "is_optimization_object (PObj fs) = True"
| "is_optimization_object _ = False"

fun is_list :: "pyval \<Rightarrow> bool" where
  "is_list (PList xs) = True"
| "is_list _ = False"

text \<open>
  The test of \<open>_generate_solution_output\<close> and \<open>_set_initial_guess_internal\<close>:
  \<open>is_list and all(isinstance(elem, OptimizationObject) for elem in value)\<close>.
\<close>

fun list_of_objects :: "pyval \<Rightarrow> bool" where
  "list_of_objects (PList xs) = list_all is_optimization_object xs"
| "list_of_objects _ = False"

subsection \<open>\<open>_generate_solution_output\<close>\<close>

fun generate_solution_output :: "'sol nlp \<Rightarrow> 'sol \<Rightarrow> pyval \<Rightarrow> error + pyval"
and solution_of_list :: "'sol nlp \<Rightarrow> 'sol \<Rightarrow> pyval list \<Rightarrow> error + pyval list"
and solution_of_fields :: "'sol nlp \<Rightarrow> 'sol \<Rightarrow> field list \<Rightarrow> error + field list" where
  "generate_solution_output be sol (PList xs) =
     (case solution_of_list be sol xs of Inl e \<Rightarrow> Inl e | Inr ys \<Rightarrow> Inr (PList ys))"
| "generate_solution_output be sol (PObj fs) =
     (case solution_of_fields be sol fs of Inl e \<Rightarrow> Inl e | Inr gs \<Rightarrow> Inr (PObj gs))"
| "generate_solution_output be sol PNone = Inl (TypeError ''fields'')"
| "generate_solution_output be sol (PFloat x) = Inl (TypeError ''fields'')"
| "generate_solution_output be sol (PStr x) = Inl (TypeError ''fields'')"
| "generate_solution_output be sol (PArray a) = Inl (TypeError ''fields'')"
| "generate_solution_output be sol (PMX m) = Inl (TypeError ''fields'')"
| "generate_solution_output be sol (PDict kvs) = Inl (TypeError ''fields'')"
| "solution_of_list be sol [] = Inr []"
| "solution_of_list be sol (x # xs) =
     (case generate_solution_output be sol x of
        Inl e \<Rightarrow> Inl e
      | Inr y \<Rightarrow> (case solution_of_list be sol xs of
                   Inl e \<Rightarrow> Inl e
                 | Inr ys \<Rightarrow> Inr (y # ys)))"
| "solution_of_fields be sol [] = Inr []"
| "solution_of_fields be sol (DField n m v # fs) =
     (case (if m = Some Variable \<or> m = Some Parameter then
              (case nlp_value be sol (asdict_inner v) of
                 Inl e \<Rightarrow> Inl (EngineError e)
               | Inr a \<Rightarrow> Inr (DField n m (PArray a)))
            else if is_optimization_object v \<or> list_of_objects v then
              (case generate_solution_output be sol v of
                 Inl e \<Rightarrow> Inl e
               | Inr w \<Rightarrow> Inr (DField n m w))
            else Inr (DField n m v)) of
        Inl e \<Rightarrow> Inl e
      | Inr g \<Rightarrow> (case solution_of_fields be sol fs of
                   Inl e \<Rightarrow> Inl e
                 | Inr gs \<Rightarrow> Inr (g # gs)))"

subsection \<open>\<open>add_cost\<close>, \<open>cost_function\<close>, \<open>add_constraint\<close>\<close>

text \<open>
  \<open>self._cost += input_cost\<close> on \<open>MX\<close> operands is \<open>self._cost = self._cost + input_cost\<close>,
  the symbolic sum.
\<close>

definition add_cost :: "'sol opti_solver \<Rightarrow> mx \<Rightarrow> 'sol opti_solver" where
  "add_cost s input_cost =
     (case cost s of
        None \<Rightarrow> s\<lparr>cost := Some input_cost\<rparr>
      | Some c \<Rightarrow> s\<lparr>cost := Some (MXAdd c input_cost)\<rparr>)"

definition cost_function :: "'sol opti_solver \<Rightarrow> mx option" where
  "cost_function s = cost s"

definition add_constraint :: "'sol opti_solver \<Rightarrow> mx \<Rightarrow> 'sol opti_solver" where
  "add_constraint s input_constraint =
     s\<lparr>solver := (solver s)\<lparr>constraints := constraints (solver s) @ [input_constraint]\<rparr>\<rparr>"

subsection \<open>\<open>solve\<close>, \<open>get_values\<close>, \<open>get_cost_value\<close>\<close>

text \<open>
  \<open>solve\<close> runs four statements; each can raise, and the session keeps what the
  statements before it assigned. The result is \<open>Inr\<close> the session after a return, or
  \<open>Inl\<close> the exception together with the session as the exception leaves it.
\<close>

text \<open>
  Modelled from the spec: the engine operation "add scalar to minimized objective"
  (\<open>Opti.minimize\<close>), which is not in the repository. The operation takes an expression.
  \<open>None\<close> is no expression: casadi's binding finds no \<open>minimize\<close> for it and raises
  \<open>NotImplementedError\<close>, and the engine is as before. An expression is the engine's to
  take or to refuse.
\<close>

definition opti_minimize :: "'sol nlp \<Rightarrow> opti \<Rightarrow> mx option \<Rightarrow> error + opti" where
  "opti_minimize be ob c =
     (case c of
        None \<Rightarrow> Inl NotImplementedError
      | Some e \<Rightarrow>
          (case nlp_minimize be e of
             Some msg \<Rightarrow> Inl (EngineError msg)
           | None \<Rightarrow> Inr (ob\<lparr>objective := Some e\<rparr>)))"

definition cost_argument :: "mx option \<Rightarrow> pyval" where
  "cost_argument c = (case c of None \<Rightarrow> PNone | Some e \<Rightarrow> PMX e)"

definition solve ::
  "'sol nlp \<Rightarrow> 'sol opti_solver \<Rightarrow> (error \<times> 'sol opti_solver) + 'sol opti_solver" where
  "solve be s =
     (case opti_minimize be (solver s) (cost s) of
        Inl e \<Rightarrow> Inl (e, s)
      | Inr ob \<Rightarrow>
          let s1 = s\<lparr>solver := ob\<rparr> in
          (case nlp_solve be (solver s1) of
             Inl msg \<Rightarrow> Inl (EngineError msg, s1)
           | Inr sol \<Rightarrow>
               let s2 = s1\<lparr>opti_solution := Some sol\<rparr> in
               (case nlp_value be sol (cost_argument (cost s2)) of
                  Inl msg \<Rightarrow> Inl (EngineError msg, s2)
                | Inr c \<Rightarrow>
                    let s3 = s2\<lparr>output_cost := Some c\<rparr> in
                    (case generate_solution_output be sol (variables s3) of
                       Inl e \<Rightarrow> Inl (e, s3)
                     | Inr out \<Rightarrow> Inr (s3\<lparr>output_solution := out\<rparr>)))))"

definition get_values :: "'sol opti_solver \<Rightarrow> error + pyval" where
  "get_values s =
     (if output_solution s = PNone then Inl SolutionNotAvailableException
      else Inr (output_solution s))"

definition get_cost_value :: "'sol opti_solver \<Rightarrow> error + ndarray" where
  "get_cost_value s =
     (case output_cost s of
        None \<Rightarrow> Inl SolutionNotAvailableException
      | Some c \<Rightarrow> Inr c)"

subsection \<open>Symbols of the engine\<close>

text \<open>
  Modelled from the spec: the engine operations "create variable of shape (r,c)" and
  "create parameter of shape (r,c)" of \<open>casadi.Opti\<close>, which is not in the repository.
  \<open>Opti.variable(n=1, m=1, attribute)\<close> and \<open>Opti.parameter\<close> are called with
  the unpacked tuple \<open>value.shape\<close>: the shape tuple is the argument list, a missing
  argument is 1,
  and a third positional argument that is no attribute string is refused. The symbol
  returned is fresh and has the requested shape.
\<close>

definition opti_symbol :: "storage_type \<Rightarrow> opti \<Rightarrow> nat \<Rightarrow> nat \<Rightarrow> opti \<times> mx" where
  "opti_symbol k ob r c =
     (ob\<lparr>declared := declared ob @ [(k, r, c)]\<rparr>, MXSym (length (declared ob)) r c)"

definition opti_declare :: "storage_type \<Rightarrow> opti \<Rightarrow> nat list \<Rightarrow> error + (opti \<times> mx)" where
  "opti_declare k ob args =
     (case args of
        [] \<Rightarrow> Inr (opti_symbol k ob 1 1)
      | [n] \<Rightarrow> Inr (opti_symbol k ob n 1)
      | [n, m] \<Rightarrow> Inr (opti_symbol k ob n m)
      | _ \<Rightarrow> Inl (EngineError ''attribute''))"

text \<open>
  Modelled from the spec: the engine operations "set initial value of variable" and
  "set fixed value of parameter" (\<open>Opti.set_initial\<close>, \<open>Opti.set_value\<close>). The engine
  stores the value under the handle; a first argument that is no \<open>MX\<close> is refused.
\<close>

definition opti_set_initial :: "opti \<Rightarrow> pyval \<Rightarrow> ndarray \<Rightarrow> error + opti" where
  "opti_set_initial ob h g =
     (case h of
        PMX m \<Rightarrow> Inr (ob\<lparr>initial_store := initial_store ob @ [(m, g)]\<rparr>)
      | _ \<Rightarrow> Inl (EngineError ''set_initial''))"

definition opti_set_value :: "opti \<Rightarrow> pyval \<Rightarrow> ndarray \<Rightarrow> error + opti" where
  "opti_set_value ob h g =
     (case h of
        PMX m \<Rightarrow> Inr (ob\<lparr>value_store := value_store ob @ [(m, g)]\<rparr>)
      | _ \<Rightarrow> Inl (EngineError ''set_value''))"

subsection \<open>Attributes of values\<close>

text \<open>
  \<open>value.shape\<close>: an array and an \<open>MX\<close> have the attribute, the other values of the
  universe raise \<open>AttributeError\<close> (\<open>None\<close> here).
\<close>

fun shape_attr :: "pyval \<Rightarrow> nat list option" where
  "shape_attr (PArray a) = Some (nd_shape a)"
| "shape_attr (PMX m) = Some (mx_shape m)"
| "shape_attr _ = None"

text \<open>
  \<open>hasattr(obj, name)\<close> and \<open>obj.__getattribute__(name)\<close> for the name of a dataclass
  field: an object has the attribute when it has a field of that name. For the other values
  the lookup fails: field names are taken not to be attribute names of \<open>list\<close>, \<open>dict\<close>,
  \<open>float\<close>, \<open>str\<close>, \<open>ndarray\<close>, \<open>MX\<close> or \<open>None\<close>.
\<close>

fun lookup_field :: "field list \<Rightarrow> string \<Rightarrow> pyval option" where
  "lookup_field [] name = None"
| "lookup_field (DField n m v # fs) name = (if n = name then Some v else lookup_field fs name)"

fun getattr :: "pyval \<Rightarrow> string \<Rightarrow> pyval option" where
  "getattr (PObj fs) name = lookup_field fs name"
| "getattr _ name = None"

fun elements :: "pyval \<Rightarrow> pyval list" where
  "elements (PList xs) = xs"
| "elements _ = []"

subsection \<open>\<open>_generate_opti_object\<close>\<close>

text \<open>\<open>np.expand_dims(value, axis=1)\<close>; on a 0-d array the axis is out of bounds.\<close>

definition expand_dims :: "ndarray \<Rightarrow> error + ndarray" where
  "expand_dims a =
     (case nd_shape a of
        [] \<Rightarrow> Inl AxisError
      | n # rest \<Rightarrow> Inr (NDArray (n # 1 # rest) (nd_data a)))"

definition normalize_value :: "string \<Rightarrow> pyval \<Rightarrow> error + pyval" where
  "normalize_value name v =
     (case v of
        PArray a \<Rightarrow>
          if length (nd_shape a) > 2 then
            Inl (ValueError (''Field '' @ name @ '' has number of dimensions greater than 2.''))
          else if length (nd_shape a) < 2 then
            (case expand_dims a of Inl e \<Rightarrow> Inl e | Inr b \<Rightarrow> Inr (PArray b))
          else Inr v
      | _ \<Rightarrow> Inr v)"

text \<open>
  The method reads and writes \<open>self._solver\<close> only, so the model threads the engine; its
  callers put the engine back in the session.
\<close>

definition generate_opti_object ::
  "opti \<Rightarrow> storage_type \<Rightarrow> string \<Rightarrow> pyval \<Rightarrow> error + (opti \<times> mx)" where
  "generate_opti_object ob storage_type name v =
     (if v = PNone then
        Inl (ValueError (''Field '' @ name @ '' is tagged as storage, but it is None.''))
      else
        (case normalize_value name v of
           Inl e \<Rightarrow> Inl e
         | Inr w \<Rightarrow>
             if storage_type = Variable then
               (case shape_attr w of
                  None \<Rightarrow> Inl (AttributeError ''shape'')
                | Some shp \<Rightarrow> opti_declare Variable ob shp)
             else if storage_type = Parameter then
               (case shape_attr w of
                  None \<Rightarrow> Inl (AttributeError ''shape'')
                | Some shp \<Rightarrow> opti_declare Parameter ob shp)
             else Inl (ValueError ''Unsupported input storage type'')))"

subsection \<open>\<open>_generate_objects_from_instance\<close>, \<open>_generate_objects_from_list\<close>\<close>

text \<open>
  The test of \<open>_generate_objects_from_instance\<close>:
  \<open>is_list and all(isinstance(elem, OptimizationObject) or isinstance(elem, list) ...)\<close>.
\<close>

fun list_of_optimization_objects :: "pyval \<Rightarrow> bool" where
  "list_of_optimization_objects (PList xs) =
     list_all (\<lambda>elem. is_optimization_object elem \<or> is_list elem) xs"
| "list_of_optimization_objects _ = False"

text \<open>The loop \<open>for value in value_list\<close> of the storage branch.\<close>

fun generate_value_list ::
  "opti \<Rightarrow> storage_type \<Rightarrow> string \<Rightarrow> pyval list \<Rightarrow> error + (opti \<times> mx list)" where
  "generate_value_list ob st name [] = Inr (ob, [])"
| "generate_value_list ob st name (v # vs) =
     (case generate_opti_object ob st name v of
        Inl e \<Rightarrow> Inl e
      | Inr (ob', h) \<Rightarrow>
          (case generate_value_list ob' st name vs of
             Inl e \<Rightarrow> Inl e
           | Inr (ob'', hs) \<Rightarrow> Inr (ob'', h # hs)))"

text \<open>
  The storage branch (\<open>StorageTypeField in field.metadata\<close>): returns the new value of the
  field.
\<close>

definition generate_storage ::
  "'sol opti_solver \<Rightarrow> storage_type \<Rightarrow> string \<Rightarrow> pyval \<Rightarrow> error + ('sol opti_solver \<times> pyval)" where
  "generate_storage s st name composite_value =
     (let value_field = asdict_inner composite_value;
          value_list = (if is_list composite_value then elements value_field else [value_field])
      in case generate_value_list (solver s) st name value_list of
           Inl e \<Rightarrow> Inl e
         | Inr (ob, output_value) \<Rightarrow>
             if is_list composite_value then
               Inr (s\<lparr>solver := ob\<rparr>, PList (map PMX output_value))
             else (case output_value of
                     [] \<Rightarrow> Inl IndexError
                   | h # rest \<Rightarrow> Inr (s\<lparr>solver := ob\<rparr>, PMX h)))"

text \<open>
  \<open>generate_optimization_objects\<close> dispatches on \<open>isinstance(input_structure,
  OptimizationObject)\<close>; \<open>_generate_objects_from_list\<close> asserts that its argument is a list.
  Both walks work on \<open>copy.deepcopy(input_structure)\<close>, which on values is the input, and
  both end with \<open>self._variables = output\<close>. \<open>generate_fields\<close> is the loop over
  \<open>dataclasses.fields(output)\<close>, \<open>generate_field\<close> its body, \<open>generate_elements\<close> the loop
  \<open>for i in range(len(output))\<close>.
\<close>

fun generate_optimization_objects ::
  "'sol opti_solver \<Rightarrow> pyval \<Rightarrow> error + ('sol opti_solver \<times> pyval)"
and generate_elements ::
  "'sol opti_solver \<Rightarrow> pyval list \<Rightarrow> error + ('sol opti_solver \<times> pyval list)"
and generate_fields ::
  "'sol opti_solver \<Rightarrow> field list \<Rightarrow> error + ('sol opti_solver \<times> field list)"
and generate_field ::
  "'sol opti_solver \<Rightarrow> field \<Rightarrow> error + ('sol opti_solver \<times> field)" where
  "generate_optimization_objects s (PObj fs) =
     (case generate_fields s fs of
        Inl e \<Rightarrow> Inl e
      | Inr (s', gs) \<Rightarrow> Inr (s'\<lparr>variables := PObj gs\<rparr>, PObj gs))"
| "generate_optimization_objects s (PList xs) =
     (case generate_elements s xs of
        Inl e \<Rightarrow> Inl e
      | Inr (s', ys) \<Rightarrow> Inr (s'\<lparr>variables := PList ys\<rparr>, PList ys))"
| "generate_optimization_objects s PNone = Inl AssertionError"
| "generate_optimization_objects s (PFloat x) = Inl AssertionError"
| "generate_optimization_objects s (PStr x) = Inl AssertionError"
| "generate_optimization_objects s (PArray a) = Inl AssertionError"
| "generate_optimization_objects s (PMX m) = Inl AssertionError"
| "generate_optimization_objects s (PDict kvs) = Inl AssertionError"
| "generate_elements s [] = Inr (s, [])"
| "generate_elements s (x # xs) =
     (case generate_optimization_objects s x of
        Inl e \<Rightarrow> Inl e
      | Inr (s', y) \<Rightarrow>
          (case generate_elements s' xs of
             Inl e \<Rightarrow> Inl e
           | Inr (s'', ys) \<Rightarrow> Inr (s'', y # ys)))"
| "generate_fields s [] = Inr (s, [])"
| "generate_fields s (f # fs) =
     (case generate_field s f of
        Inl e \<Rightarrow> Inl e
      | Inr (s', g) \<Rightarrow>
          (case generate_fields s' fs of
             Inl e \<Rightarrow> Inl e
           | Inr (s'', gs) \<Rightarrow> Inr (s'', g # gs)))"
| "generate_field s (DField n m composite_value) =
     (if is_optimization_object composite_value \<or> list_of_optimization_objects composite_value
      then
        (case generate_optimization_objects s composite_value of
           Inl e \<Rightarrow> Inl e
         | Inr (s', w) \<Rightarrow> Inr (s', DField n m w))
      else
        (case m of
           Some st \<Rightarrow>
             (case generate_storage s st n composite_value of
                Inl e \<Rightarrow> Inl e
              | Inr (s', w) \<Rightarrow> Inr (s', DField n m w))
         | None \<Rightarrow> Inr (s, DField n m composite_value)))"

definition get_optimization_objects :: "'sol opti_solver \<Rightarrow> pyval" where
  "get_optimization_objects s = variables s"

subsection \<open>\<open>_set_initial_guess_internal\<close>, \<open>set_initial_guess\<close>\<close>

text \<open>
  \<open>guess.shape if len(guess.shape) > 1 else (guess.shape[0], 1)\<close>; on a 0-d array
  \<open>guess.shape[0]\<close> raises \<open>IndexError\<close>.
\<close>

definition input_shape :: "ndarray \<Rightarrow> error + nat list" where
  "input_shape guess =
     (if length (nd_shape guess) > 1 then Inr (nd_shape guess)
      else (case nd_shape guess of
              [] \<Rightarrow> Inl IndexError
            | n # rest \<Rightarrow> Inr [n, 1]))"

text \<open>
  The two storage branches of the loop body. They differ in the word that ends the
  message of the missing attribute and in the engine call.
\<close>

definition guess_variable ::
  "'sol opti_solver \<Rightarrow> string \<Rightarrow> pyval \<Rightarrow> pyval \<Rightarrow> error + 'sol opti_solver" where
  "guess_variable s name field_value corresponding_variable =
     (let guess = asdict_inner field_value in
      if guess = PNone then Inr s
      else
        (case guess of
           PArray g \<Rightarrow>
             (case getattr corresponding_variable name of
                None \<Rightarrow>
                  Inl (ValueError (''The guess has the field '' @ name
                    @ '' but it is not present in the optimization variables''))
              | Some corresponding_variable_value \<Rightarrow>
                  (case input_shape g of
                     Inl e \<Rightarrow> Inl e
                   | Inr shp \<Rightarrow>
                       (case shape_attr corresponding_variable_value of
                          None \<Rightarrow> Inl (AttributeError ''shape'')
                        | Some vshape \<Rightarrow>
                            if vshape \<noteq> shp then
                              Inl (ValueError (''The guess has the field '' @ name
                                @ '' but its dimension does not match with the corresponding optimization variable''))
                            else
                              (case opti_set_initial (solver s) corresponding_variable_value g of
                                 Inl e \<Rightarrow> Inl e
                               | Inr ob \<Rightarrow> Inr (s\<lparr>solver := ob\<rparr>)))))
         | _ \<Rightarrow>
             Inl (ValueError (''The guess for the field '' @ name @ '' is not an numpy array.''))))"

definition guess_parameter ::
  "'sol opti_solver \<Rightarrow> string \<Rightarrow> pyval \<Rightarrow> pyval \<Rightarrow> error + 'sol opti_solver" where
  "guess_parameter s name field_value corresponding_variable =
     (let guess = asdict_inner field_value in
      if guess = PNone then Inr s
      else
        (case guess of
           PArray g \<Rightarrow>
             (case getattr corresponding_variable name of
                None \<Rightarrow>
                  Inl (ValueError (''The guess has the field '' @ name
                    @ '' but it is not present in the optimization parameters''))
              | Some corresponding_parameter_value \<Rightarrow>
                  (case input_shape g of
                     Inl e \<Rightarrow> Inl e
                   | Inr shp \<Rightarrow>
                       (case shape_attr corresponding_parameter_value of
                          None \<Rightarrow> Inl (AttributeError ''shape'')
                        | Some vshape \<Rightarrow>
                            if vshape \<noteq> shp then
                              Inl (ValueError (''The guess has the field '' @ name
                                @ '' but its dimension does not match with the corresponding optimization variable''))
                            else
                              (case opti_set_value (solver s) corresponding_parameter_value g of
                                 Inl e \<Rightarrow> Inl e
                               | Inr ob \<Rightarrow> Inr (s\<lparr>solver := ob\<rparr>)))))
         | _ \<Rightarrow>
             Inl (ValueError (''The guess for the field '' @ name @ '' is not an numpy array.''))))"

text \<open>
  \<open>set_initial_guess_internal\<close> is the function, \<open>guess_fields\<close> its loop over
  \<open>dataclasses.fields(initial_guess)\<close> (which raises \<open>TypeError\<close> on a value that is no
  dataclass instance), \<open>guess_elements\<close> the loop \<open>for element in ...\<close> with its counter
  \<open>i\<close>. The loop is written twice in the source, in \<open>_set_initial_guess_internal\<close> and in
  \<open>set_initial_guess\<close>, with two messages; \<open>msg\<close> is the message.
\<close>

fun set_initial_guess_internal ::
  "'sol opti_solver \<Rightarrow> pyval \<Rightarrow> pyval \<Rightarrow> error + 'sol opti_solver"
and guess_fields ::
  "'sol opti_solver \<Rightarrow> field list \<Rightarrow> pyval \<Rightarrow> error + 'sol opti_solver"
and guess_elements ::
  "'sol opti_solver \<Rightarrow> string \<Rightarrow> pyval list \<Rightarrow> pyval list \<Rightarrow> nat \<Rightarrow> error + 'sol opti_solver"
where
  "set_initial_guess_internal s (PObj fs) corresponding_variable =
     guess_fields s fs corresponding_variable"
| "set_initial_guess_internal s PNone corresponding_variable = Inl (TypeError ''fields'')"
| "set_initial_guess_internal s (PFloat x) corresponding_variable = Inl (TypeError ''fields'')"
| "set_initial_guess_internal s (PStr x) corresponding_variable = Inl (TypeError ''fields'')"
| "set_initial_guess_internal s (PArray a) corresponding_variable = Inl (TypeError ''fields'')"
| "set_initial_guess_internal s (PMX m) corresponding_variable = Inl (TypeError ''fields'')"
| "set_initial_guess_internal s (PList xs) corresponding_variable = Inl (TypeError ''fields'')"
| "set_initial_guess_internal s (PDict kvs) corresponding_variable = Inl (TypeError ''fields'')"
| "guess_fields s [] corresponding_variable = Inr s"
| "guess_fields s (DField n m v # fs) corresponding_variable =
     (case (if m = Some Variable then guess_variable s n v corresponding_variable
            else if m = Some Parameter then guess_parameter s n v corresponding_variable
            else
              (case v of
                 PObj gfs \<Rightarrow>
                   (case getattr corresponding_variable n of
                      None \<Rightarrow>
                        Inl (ValueError (''The guess has the field '' @ n
                          @ '' but it is not present in the optimization structure''))
                    | Some nested \<Rightarrow> set_initial_guess_internal s (PObj gfs) nested)
               | PList gs \<Rightarrow>
                   if list_all is_optimization_object gs then
                     (case getattr corresponding_variable n of
                        None \<Rightarrow>
                          Inl (ValueError (''The guess has the field '' @ n
                            @ '' but it is not present in the optimization structure''))
                      | Some corresponding_nested_variable \<Rightarrow>
                          if \<not> is_list corresponding_nested_variable then
                            Inl (ValueError (''The guess has the field '' @ n
                              @ '' as list, but the corresponding structure is not a list''))
                          else
                            guess_elements s
                              (''The input guess is the list '' @ n
                                @ '' but the corresponding variable structure is not a list'')
                              gs (elements corresponding_nested_variable) 0)
                   else Inr s
               | _ \<Rightarrow> Inr s)) of
        Inl e \<Rightarrow> Inl e
      | Inr s' \<Rightarrow> guess_fields s' fs corresponding_variable)"
| "guess_elements s msg [] vs i = Inr s"
| "guess_elements s msg (element # rest) vs i =
     (if i \<ge> length vs then Inl (ValueError msg)
      else
        (case set_initial_guess_internal s element (vs ! i) of
           Inl e \<Rightarrow> Inl e
         | Inr s' \<Rightarrow> guess_elements s' msg rest vs (Suc i)))"

definition set_initial_guess :: "'sol opti_solver \<Rightarrow> pyval \<Rightarrow> error + 'sol opti_solver" where
  "set_initial_guess s initial_guess =
     (case initial_guess of
        PList gs \<Rightarrow>
          if \<not> is_list (variables s) then
            Inl (ValueError
              ''The input guess is a list, but the specified variables structure is not'')
          else
            guess_elements s
              ''The input guess is a list, but the specified variables structure is not''
              gs (elements (variables s)) 0
      | _ \<Rightarrow> set_initial_guess_internal s initial_guess (variables s))"

section \<open>The generator on a store\<close>

text \<open>
  The model above works on values, where a deep copy cannot be told from its original. To
  say what the generator does to the objects of its caller, the same functions are
  modelled on a store: a heap of cells (arrays, lists, dicts, dataclass instances) that refer
  to each other by address. An allocation appends a cell; \<open>setattr\<close> and the assignment
  \<open>output[i] = ...\<close> overwrite one. None, floats, strings and \<open>MX\<close> handles are
  immutable and stand for themselves. The fuel \<open>n\<close> of the recursive functions is the depth
  still available on the interpreter's stack; at depth 0 a call raises \<open>RecursionError\<close>.
  Every function returns the heap it leaves behind, also when it raises.
\<close>

type_synonym addr = nat

datatype hval = HNone | HFloat real | HStr string | HMX mx | HRef addr

datatype cell =
    CArray ndarray
  | CList "hval list"
  | CDict "(string \<times> hval) list"
  | CObj "(string \<times> storage_type option \<times> hval) list"

type_synonym heap = "cell list"

type_synonym memo = "(addr \<times> addr) list"

definition cell_at :: "heap \<Rightarrow> addr \<Rightarrow> cell option" where
  "cell_at h a = (if a < length h then Some (h ! a) else None)"

text \<open>
  \<open>copy.deepcopy(x, memo)\<close>: an address found in \<open>memo\<close> gives the copy made earlier; an
  array is copied by its \<open>__deepcopy__\<close>; for a list, a dict and an instance the new
  object is created and entered in \<open>memo\<close> before its parts are copied, so a cyclic
  structure is copied once. The model writes the copied parts into the new cell when all
  of them are there.
\<close>

fun rebuild_fields ::
  "(string \<times> storage_type option \<times> hval) list \<Rightarrow> hval list \<Rightarrow>
   (string \<times> storage_type option \<times> hval) list" where
  "rebuild_fields ((n, m, v) # fs) (w # ws) = (n, m, w) # rebuild_fields fs ws"
| "rebuild_fields fs ws = []"

fun deepcopy_h :: "nat \<Rightarrow> heap \<Rightarrow> memo \<Rightarrow> hval \<Rightarrow> heap \<times> (error + memo \<times> hval)"
and deepcopy_vals :: "nat \<Rightarrow> heap \<Rightarrow> memo \<Rightarrow> hval list \<Rightarrow> heap \<times> (error + memo \<times> hval list)"
where
  "deepcopy_h 0 h memo v = (h, Inl RecursionError)"
| "deepcopy_h (Suc n) h memo HNone = (h, Inr (memo, HNone))"
| "deepcopy_h (Suc n) h memo (HFloat x) = (h, Inr (memo, HFloat x))"
| "deepcopy_h (Suc n) h memo (HStr x) = (h, Inr (memo, HStr x))"
| "deepcopy_h (Suc n) h memo (HMX m) = (h, Inr (memo, HMX m))"
| "deepcopy_h (Suc n) h memo (HRef a) =
     (case map_of memo a of
        Some y \<Rightarrow> (h, Inr (memo, HRef y))
      | None \<Rightarrow>
          (case cell_at h a of
             None \<Rightarrow> (h, Inr (memo, HRef a))
           | Some (CArray nd) \<Rightarrow> (h @ [CArray nd], Inr ((a, length h) # memo, HRef (length h)))
           | Some (CList xs) \<Rightarrow>
               (case deepcopy_vals n (h @ [CList []]) ((a, length h) # memo) xs of
                  (h', Inl e) \<Rightarrow> (h', Inl e)
                | (h', Inr (memo', ys)) \<Rightarrow>
                    (h'[length h := CList ys], Inr (memo', HRef (length h))))
           | Some (CDict kvs) \<Rightarrow>
               (case deepcopy_vals n (h @ [CDict []]) ((a, length h) # memo) (map snd kvs) of
                  (h', Inl e) \<Rightarrow> (h', Inl e)
                | (h', Inr (memo', ys)) \<Rightarrow>
                    (h'[length h := CDict (zip (map fst kvs) ys)], Inr (memo', HRef (length h))))
           | Some (CObj fs) \<Rightarrow>
               (case deepcopy_vals n (h @ [CObj []]) ((a, length h) # memo)
                       (map (\<lambda>f. snd (snd f)) fs) of
                  (h', Inl e) \<Rightarrow> (h', Inl e)
                | (h', Inr (memo', ys)) \<Rightarrow>
                    (h'[length h := CObj (rebuild_fields fs ys)], Inr (memo', HRef (length h))))))"
| "deepcopy_vals n h memo [] = (h, Inr (memo, []))"
| "deepcopy_vals n h memo (v # vs) =
     (case deepcopy_h n h memo v of
        (h', Inl e) \<Rightarrow> (h', Inl e)
      | (h', Inr (memo', w)) \<Rightarrow>
          (case deepcopy_vals n h' memo' vs of
             (h'', Inl e) \<Rightarrow> (h'', Inl e)
           | (h'', Inr (memo'', ws)) \<Rightarrow> (h'', Inr (memo'', w # ws))))"

text \<open>
  \<open>dataclasses._asdict_inner\<close>: an instance, a list and a dict are rebuilt as a new dict
  or list of the converted parts, anything else goes through \<open>copy.deepcopy\<close>.
\<close>

fun asdict_h :: "nat \<Rightarrow> heap \<Rightarrow> hval \<Rightarrow> heap \<times> (error + hval)"
and asdict_vals :: "nat \<Rightarrow> heap \<Rightarrow> hval list \<Rightarrow> heap \<times> (error + hval list)"
where
  "asdict_h 0 h v = (h, Inl RecursionError)"
| "asdict_h (Suc n) h HNone = (h, Inr HNone)"
| "asdict_h (Suc n) h (HFloat x) = (h, Inr (HFloat x))"
| "asdict_h (Suc n) h (HStr x) = (h, Inr (HStr x))"
| "asdict_h (Suc n) h (HMX m) = (h, Inr (HMX m))"
| "asdict_h (Suc n) h (HRef a) =
     (case cell_at h a of
        Some (CObj fs) \<Rightarrow>
          (case asdict_vals n h (map (\<lambda>f. snd (snd f)) fs) of
             (h', Inl e) \<Rightarrow> (h', Inl e)
           | (h', Inr ws) \<Rightarrow> (h' @ [CDict (zip (map fst fs) ws)], Inr (HRef (length h'))))
      | Some (CList xs) \<Rightarrow>
          (case asdict_vals n h xs of
             (h', Inl e) \<Rightarrow> (h', Inl e)
           | (h', Inr ws) \<Rightarrow> (h' @ [CList ws], Inr (HRef (length h'))))
      | Some (CDict kvs) \<Rightarrow>
          (case asdict_vals n h (map snd kvs) of
             (h', Inl e) \<Rightarrow> (h', Inl e)
           | (h', Inr ws) \<Rightarrow> (h' @ [CDict (zip (map fst kvs) ws)], Inr (HRef (length h'))))
      | _ \<Rightarrow>
          (case deepcopy_h n h [] (HRef a) of
             (h', Inl e) \<Rightarrow> (h', Inl e)
           | (h', Inr (memo, w)) \<Rightarrow> (h', Inr w)))"
| "asdict_vals n h [] = (h, Inr [])"
| "asdict_vals n h (v # vs) =
     (case asdict_h n h v of
        (h', Inl e) \<Rightarrow> (h', Inl e)
      | (h', Inr w) \<Rightarrow>
          (case asdict_vals n h' vs of
             (h'', Inl e) \<Rightarrow> (h'', Inl e)
           | (h'', Inr ws) \<Rightarrow> (h'', Inr (w # ws))))"

text \<open>Type tests, attribute and item access on the store.\<close>

fun is_object_h :: "heap \<Rightarrow> hval \<Rightarrow> bool" where
  "is_object_h h (HRef a) = (case cell_at h a of Some (CObj fs) \<Rightarrow> True | _ \<Rightarrow> False)"
| "is_object_h h _ = False"

fun is_list_h :: "heap \<Rightarrow> hval \<Rightarrow> bool" where
  "is_list_h h (HRef a) = (case cell_at h a of Some (CList xs) \<Rightarrow> True | _ \<Rightarrow> False)"
| "is_list_h h _ = False"

fun elements_h :: "heap \<Rightarrow> hval \<Rightarrow> hval list" where
  "elements_h h (HRef a) = (case cell_at h a of Some (CList xs) \<Rightarrow> xs | _ \<Rightarrow> [])"
| "elements_h h _ = []"

fun fields_h :: "heap \<Rightarrow> hval \<Rightarrow> (string \<times> storage_type option) list" where
  "fields_h h (HRef a) =
     (case cell_at h a of Some (CObj fs) \<Rightarrow> map (\<lambda>f. (fst f, fst (snd f))) fs | _ \<Rightarrow> [])"
| "fields_h h _ = []"

fun lookup_h :: "(string \<times> storage_type option \<times> hval) list \<Rightarrow> string \<Rightarrow> hval option" where
  "lookup_h [] name = None"
| "lookup_h ((n, m, v) # fs) name = (if n = name then Some v else lookup_h fs name)"

fun getattr_h :: "heap \<Rightarrow> hval \<Rightarrow> string \<Rightarrow> hval option" where
  "getattr_h h (HRef a) name =
     (case cell_at h a of Some (CObj fs) \<Rightarrow> lookup_h fs name | _ \<Rightarrow> None)"
| "getattr_h h _ name = None"

fun getitem_h :: "heap \<Rightarrow> hval \<Rightarrow> string \<Rightarrow> hval option" where
  "getitem_h h (HRef a) name =
     (case cell_at h a of Some (CDict kvs) \<Rightarrow> map_of kvs name | _ \<Rightarrow> None)"
| "getitem_h h _ name = None"

fun update_field ::
  "(string \<times> storage_type option \<times> hval) list \<Rightarrow> string \<Rightarrow> hval \<Rightarrow>
   (string \<times> storage_type option \<times> hval) list" where
  "update_field [] name w = []"
| "update_field ((n, m, v) # fs) name w =
     (if n = name then (n, m, w) # fs else (n, m, v) # update_field fs name w)"

fun setattr_h :: "heap \<Rightarrow> hval \<Rightarrow> string \<Rightarrow> hval \<Rightarrow> heap" where
  "setattr_h h (HRef a) name w =
     (case cell_at h a of Some (CObj fs) \<Rightarrow> h[a := CObj (update_field fs name w)] | _ \<Rightarrow> h)"
| "setattr_h h _ name w = h"

fun setitem_h :: "heap \<Rightarrow> hval \<Rightarrow> nat \<Rightarrow> hval \<Rightarrow> heap" where
  "setitem_h h (HRef a) i w =
     (case cell_at h a of Some (CList xs) \<Rightarrow> h[a := CList (xs[i := w])] | _ \<Rightarrow> h)"
| "setitem_h h _ i w = h"

text \<open>
  What \<open>_generate_opti_object\<close> can see of its argument: whether it is \<open>None\<close>, and
  for an array or an \<open>MX\<close> its shape. The parts of a list, dict or instance are not looked at.
\<close>

fun view :: "heap \<Rightarrow> hval \<Rightarrow> pyval" where
  "view h HNone = PNone"
| "view h (HFloat x) = PFloat x"
| "view h (HStr x) = PStr x"
| "view h (HMX m) = PMX m"
| "view h (HRef a) =
     (case cell_at h a of
        Some (CArray nd) \<Rightarrow> PArray nd
      | Some (CList xs) \<Rightarrow> PList []
      | Some (CDict kvs) \<Rightarrow> PDict []
      | Some (CObj fs) \<Rightarrow> PObj []
      | None \<Rightarrow> PNone)"

text \<open>The two attributes of the session that the generator uses.\<close>

record store_solver =
  st_solver :: opti
  st_variables :: hval

text \<open>
  The storage branch: \<open>dataclasses.asdict(output)[field.name]\<close> converts the whole of
  \<open>output\<close>; the list \<open>output_value\<close> is allocated when it becomes the value of the field.
\<close>

definition generate_storage_h ::
  "nat \<Rightarrow> store_solver \<Rightarrow> heap \<Rightarrow> hval \<Rightarrow> storage_type \<Rightarrow> string \<Rightarrow> bool \<Rightarrow>
   heap \<times> (error + store_solver)" where
  "generate_storage_h n s h output st name composite_is_list =
     (case asdict_h n h output of
        (h1, Inl e) \<Rightarrow> (h1, Inl e)
      | (h1, Inr d) \<Rightarrow>
          (case getitem_h h1 d name of
             None \<Rightarrow> (h1, Inl (TypeError ''asdict''))
           | Some value_field \<Rightarrow>
               (case generate_value_list (st_solver s) st name
                       (map (view h1)
                          (if composite_is_list then elements_h h1 value_field
                           else [value_field])) of
                  Inl e \<Rightarrow> (h1, Inl e)
                | Inr (ob, output_value) \<Rightarrow>
                    if composite_is_list then
                      (setattr_h (h1 @ [CList (map HMX output_value)]) output name
                         (HRef (length h1)),
                       Inr (s\<lparr>st_solver := ob\<rparr>))
                    else
                      (case output_value of
                         [] \<Rightarrow> (h1, Inl IndexError)
                       | x # rest \<Rightarrow>
                           (setattr_h h1 output name (HMX x), Inr (s\<lparr>st_solver := ob\<rparr>))))))"

text \<open>
  \<open>generate_h\<close> is \<open>generate_optimization_objects\<close> with the body of the function it
  dispatches to; \<open>generate_fields_h\<close> is the loop over \<open>dataclasses.fields(output)\<close>, which
  reads each field from the store when its turn comes; \<open>generate_elements_h\<close> is the loop
  over \<open>range(len(output))\<close>.
\<close>

fun generate_h ::
  "nat \<Rightarrow> store_solver \<Rightarrow> heap \<Rightarrow> hval \<Rightarrow> heap \<times> (error + store_solver \<times> hval)"
and generate_fields_h ::
  "nat \<Rightarrow> store_solver \<Rightarrow> heap \<Rightarrow> hval \<Rightarrow> (string \<times> storage_type option) list \<Rightarrow>
   heap \<times> (error + store_solver)"
and generate_elements_h ::
  "nat \<Rightarrow> store_solver \<Rightarrow> heap \<Rightarrow> hval \<Rightarrow> nat list \<Rightarrow> heap \<times> (error + store_solver)"
where
  "generate_h 0 s h input_structure = (h, Inl RecursionError)"
| "generate_h (Suc n) s h input_structure =
     (if is_object_h h input_structure then
        (case deepcopy_h n h [] input_structure of
           (h1, Inl e) \<Rightarrow> (h1, Inl e)
         | (h1, Inr (memo, output)) \<Rightarrow>
             (case generate_fields_h n s h1 output (fields_h h1 output) of
                (h2, Inl e) \<Rightarrow> (h2, Inl e)
              | (h2, Inr s') \<Rightarrow> (h2, Inr (s'\<lparr>st_variables := output\<rparr>, output))))
      else if \<not> is_list_h h input_structure then (h, Inl AssertionError)
      else
        (case deepcopy_h n h [] input_structure of
           (h1, Inl e) \<Rightarrow> (h1, Inl e)
         | (h1, Inr (memo, output)) \<Rightarrow>
             (case generate_elements_h n s h1 output [0 ..< length (elements_h h1 output)] of
                (h2, Inl e) \<Rightarrow> (h2, Inl e)
              | (h2, Inr s') \<Rightarrow> (h2, Inr (s'\<lparr>st_variables := output\<rparr>, output)))))"
| "generate_fields_h n s h output [] = (h, Inr s)"
| "generate_fields_h n s h output ((name, meta) # rest) =
     (case getattr_h h output name of
        None \<Rightarrow> (h, Inl (AttributeError name))
      | Some composite_value \<Rightarrow>
          (case (if is_object_h h composite_value
                    \<or> (is_list_h h composite_value
                        \<and> list_all (\<lambda>elem. is_object_h h elem \<or> is_list_h h elem)
                             (elements_h h composite_value))
                 then
                   (case generate_h n s h composite_value of
                      (h', Inl e) \<Rightarrow> (h', Inl e)
                    | (h', Inr (s', w)) \<Rightarrow> (setattr_h h' output name w, Inr s'))
                 else
                   (case meta of
                      Some st \<Rightarrow>
                        generate_storage_h n s h output st name (is_list_h h composite_value)
                    | None \<Rightarrow> (h, Inr s))) of
             (h', Inl e) \<Rightarrow> (h', Inl e)
           | (h', Inr s') \<Rightarrow> generate_fields_h n s' h' output rest))"
| "generate_elements_h n s h output [] = (h, Inr s)"
| "generate_elements_h n s h output (i # rest) =
     (case (if i < length (elements_h h output)
            then generate_h n s h (elements_h h output ! i)
            else (h, Inl IndexError)) of
        (h', Inl e) \<Rightarrow> (h', Inl e)
      | (h', Inr (s', w)) \<Rightarrow> generate_elements_h n s' (setitem_h h' output i w) output rest)"

text \<open>
  \<open>preserved h h'\<close>: every cell of \<open>h\<close> is still in \<open>h'\<close>, at its address and with its
  content.
\<close>

definition preserved :: "heap \<Rightarrow> heap \<Rightarrow> bool" where
  "preserved h h' = (take (length h) h' = h)"

section \<open>Notions of the spec\<close>

text \<open>
  The spec's column convention for a storage shape: a 1-D shape \<open>(N,)\<close> stands for
  \<open>(N, 1)\<close>, any other shape for itself.
\<close>

fun column_form :: "nat list \<Rightarrow> nat list" where
  "column_form [n] = [n, 1]"
| "column_form shp = shp"

text \<open>
  The spec's PlainData field: not tagged as storage, its value no composite and no list
  whose elements are all composites.
\<close>

definition plain_data :: "field \<Rightarrow> bool" where
  "plain_data f =
     (fmeta f = None \<and> \<not> is_optimization_object (fvalue f) \<and> \<not> list_of_objects (fvalue f))"

text \<open>
  Binding index-wise, in the words of the spec: the guesses are bound one after the other
  to the symbolic elements at the same index, and the first failure ends the binding.
\<close>

fun bind_indexwise ::
  "'sol opti_solver \<Rightarrow> (pyval \<times> pyval) list \<Rightarrow> error + 'sol opti_solver" where
  "bind_indexwise s [] = Inr s"
| "bind_indexwise s ((g, v) # ps) =
     (case set_initial_guess_internal s g v of
        Inl e \<Rightarrow> Inl e
      | Inr s' \<Rightarrow> bind_indexwise s' ps)"

section \<open>Example inputs\<close>

text \<open>
  Two engines. Both take any expression as objective, and both give the value 0 to an
  expression and refuse to give a value to anything that is no expression, as
  \<open>OptiSol.value\<close> refuses a list of handles. One solves, the other fails to solve.
\<close>

definition accept_objective :: "mx \<Rightarrow> string option" where
  "accept_objective e = None"

definition solve_succeeds :: "opti \<Rightarrow> string + unit" where
  "solve_succeeds ob = Inr ()"

definition solve_fails :: "opti \<Rightarrow> string + unit" where
  "solve_fails ob = Inl ''Infeasible_Problem_Detected''"

definition value_of_expression :: "unit \<Rightarrow> pyval \<Rightarrow> string + ndarray" where
  "value_of_expression sol v =
     (case v of PMX e \<Rightarrow> Inr (NDArray [] [0]) | _ \<Rightarrow> Inl ''value'')"

definition lenient_nlp :: "unit nlp" where
  "lenient_nlp = \<lparr>nlp_minimize = accept_objective, nlp_solve = solve_succeeds,
     nlp_value = value_of_expression\<rparr>"

definition failing_nlp :: "unit nlp" where
  "failing_nlp = \<lparr>nlp_minimize = accept_objective, nlp_solve = solve_fails,
     nlp_value = value_of_expression\<rparr>"

text \<open>A template, the symbolic structure generated from it, and the session that holds it.\<close>

definition example_template :: pyval where
  "example_template =
     PObj [DField ''x'' (Some Variable) (PArray (NDArray [2] [0, 0])),
           DField ''p'' (Some Parameter) (PArray (NDArray [1, 1] [5])),
           DField ''label'' None (PStr ''point'')]"

definition example_symbolic :: pyval where
  "example_symbolic =
     PObj [DField ''x'' (Some Variable) (PMX (MXSym 0 2 1)),
           DField ''p'' (Some Parameter) (PMX (MXSym 1 1 1)),
           DField ''label'' None (PStr ''point'')]"

definition example_session :: "unit opti_solver" where
  "example_session =
     \<lparr>cost = Some (MXMul (MXSym 1 1 1) (MXSym 1 1 1)),
      solver = \<lparr>declared = [(Variable, 2, 1), (Parameter, 1, 1)], initial_store = [],
                value_store = [], objective = None, constraints = []\<rparr>,
      opti_solution = None, output_solution = PNone, output_cost = None,
      variables = example_symbolic\<rparr>"

text \<open>A template whose variable \<open>xs\<close> holds a list of two arrays, and the session
  that generating its objects on a new session gives.\<close>

definition list_storage_template :: pyval where
  "list_storage_template =
     PObj [DField ''xs'' (Some Variable)
             (PList [PArray (NDArray [2] [0, 0]), PArray (NDArray [2] [0, 0])])]"

definition list_storage_session :: "unit opti_solver" where
  "list_storage_session =
     \<lparr>cost = None,
      solver = \<lparr>declared = [(Variable, 2, 1), (Variable, 2, 1)], initial_store = [],
                value_store = [], objective = None, constraints = []\<rparr>,
      opti_solution = None, output_solution = PNone, output_cost = None,
      variables = PObj [DField ''xs'' (Some Variable)
                          (PList [PMX (MXSym 0 2 1), PMX (MXSym 1 2 1)])]\<rparr>"

text \<open>A session that tracks a structure with one variable of shape \<open>(3, 1)\<close> and one
  parameter of shape \<open>(1, 1)\<close>, and a session that tracks a list of three structures.\<close>

definition guess_session :: "unit opti_solver" where
  "guess_session =
     \<lparr>cost = None,
      solver = \<lparr>declared = [(Variable, 3, 1), (Parameter, 1, 1)], initial_store = [],
                value_store = [], objective = None, constraints = []\<rparr>,
      opti_solution = None, output_solution = PNone, output_cost = None,
      variables = PObj [DField ''x'' (Some Variable) (PMX (MXSym 0 3 1)),
                        DField ''p'' (Some Parameter) (PMX (MXSym 1 1 1))]\<rparr>"

definition list_session :: "unit opti_solver" where
  "list_session =
     \<lparr>cost = None,
      solver = \<lparr>declared = [(Variable, 2, 1), (Variable, 2, 1), (Variable, 2, 1)],
                initial_store = [], value_store = [], objective = None, constraints = []\<rparr>,
      opti_solution = None, output_solution = PNone, output_cost = None,
      variables = PList [PObj [DField ''x'' (Some Variable) (PMX (MXSym 0 2 1))],
                         PObj [DField ''x'' (Some Variable) (PMX (MXSym 1 2 1))],
                         PObj [DField ''x'' (Some Variable) (PMX (MXSym 2 2 1))]]\<rparr>"

text \<open>A store with one template: an instance with a variable \<open>x\<close>, whose value is the
  array at address 1, and a plain field.\<close>

definition example_heap :: heap where
  "example_heap =
     [CObj [(''x'', Some Variable, HRef 1), (''label'', None, HStr ''point'')],
      CArray (NDArray [2] [0, 0])]"

definition new_store_solver :: store_solver where
  "new_store_solver = \<lparr>st_solver = new_opti, st_variables = HNone\<rparr>"

section \<open>Properties of the session\<close>

lemmas nlp_examples = lenient_nlp_def failing_nlp_def accept_objective_def
  solve_succeeds_def solve_fails_def value_of_expression_def

subsection \<open>Accumulating the cost\<close>

text \<open>
  Claim C6. \<open>add_cost\<close> accumulates by symbolic addition. On a session whose cost is
  absent the first call stores its argument; a call on a session whose cost is \<open>c\<close> stores
  the symbolic sum of \<open>c\<close> and the argument; so after \<open>add_cost a\<close> and \<open>add_cost b\<close> the
  stored cost, as \<open>cost_function\<close> returns it, is the sum of \<open>a\<close> and \<open>b\<close>, and its value
  at any point is the value of \<open>a\<close> plus the value of \<open>b\<close>. Nothing is asked of the rest of
  the session, and nothing else in it changes.
\<close>

theorem add_cost_accumulates:
  "cost_function (add_cost (s\<lparr>cost := None\<rparr>) a) = Some a
   \<and> cost_function (add_cost (add_cost (s\<lparr>cost := None\<rparr>) a) b) = Some (MXAdd a b)
   \<and> cost_function (add_cost (s\<lparr>cost := Some c\<rparr>) b) = Some (MXAdd c b)
   \<and> (\<forall>env. map_option (mx_eval env)
                (cost_function (add_cost (add_cost (s\<lparr>cost := None\<rparr>) a) b))
              = Some (mx_eval env a + mx_eval env b))
   \<and> add_cost (add_cost (s\<lparr>cost := None\<rparr>) a) b = s\<lparr>cost := Some (MXAdd a b)\<rparr>"
  by (simp add: add_cost_def cost_function_def)

theorem add_cost_accumulates_witness:
  "cost_function
     (add_cost (add_cost ((post_init :: unit opti_solver)\<lparr>cost := None\<rparr>) (MXSym 0 1 1))
        (MXConst 2))
     = Some (MXAdd (MXSym 0 1 1) (MXConst 2))
   \<and> map_option (mx_eval (\<lambda>i. 5))
        (cost_function
           (add_cost (add_cost ((post_init :: unit opti_solver)\<lparr>cost := None\<rparr>) (MXSym 0 1 1))
              (MXConst 2)))
     = Some 7"
  using add_cost_accumulates [where s = "post_init :: unit opti_solver" and a = "MXSym 0 1 1"
      and b = "MXConst 2" and c = "MXConst 0"]
  by (simp add: cost_function_def)

subsection \<open>What the other operations keep\<close>

lemma generate_keeps_outputs:
  "generate_optimization_objects s v = Inr (s', w) \<Longrightarrow>
     output_solution s' = output_solution s \<and> output_cost s' = output_cost s
     \<and> cost s' = cost s"
  "generate_elements s xs = Inr (s', ys) \<Longrightarrow>
     output_solution s' = output_solution s \<and> output_cost s' = output_cost s
     \<and> cost s' = cost s"
  "generate_fields s fs = Inr (s', gs) \<Longrightarrow>
     output_solution s' = output_solution s \<and> output_cost s' = output_cost s
     \<and> cost s' = cost s"
  "generate_field s f = Inr (s', g) \<Longrightarrow>
     output_solution s' = output_solution s \<and> output_cost s' = output_cost s
     \<and> cost s' = cost s"
proof (induction s v and s xs and s fs and s f arbitrary: s' w and s' ys and s' gs and s' g
       rule: generate_optimization_objects_generate_elements_generate_fields_generate_field.induct)
  case (1 s fs)
  then show ?case by (auto split: sum.splits prod.splits)
next
  case (2 s xs)
  then show ?case by (auto split: sum.splits prod.splits)
next
  case (10 s x xs)
  from 10(3) obtain s1 y ys' where
    a: "generate_optimization_objects s x = Inr (s1, y)" and
    b: "generate_elements s1 xs = Inr (s', ys')"
    by (auto split: sum.splits prod.splits)
  from 10(1)[OF a] 10(2)[OF a refl b] show ?case by simp
next
  case (12 s f fs)
  from 12(3) obtain s1 g gs' where
    a: "generate_field s f = Inr (s1, g)" and
    b: "generate_fields s1 fs = Inr (s', gs')"
    by (auto split: sum.splits prod.splits)
  from 12(1)[OF a] 12(2)[OF a refl b] show ?case by simp
next
  case (13 s n m v)
  show ?case
  proof (cases "is_optimization_object v \<or> list_of_optimization_objects v")
    case True
    with 13(2) obtain w where "generate_optimization_objects s v = Inr (s', w)"
      by (auto split: sum.splits prod.splits)
    from 13(1)[OF True this] show ?thesis .
  next
    case False
    with 13(2) show ?thesis
      by (auto simp: generate_storage_def Let_def split: sum.splits prod.splits option.splits if_splits list.splits)
  qed
qed simp_all

lemma guess_storage_keeps_outputs:
  "guess_variable s n v cv = Inr s' \<Longrightarrow>
     output_solution s' = output_solution s \<and> output_cost s' = output_cost s
     \<and> cost s' = cost s"
  "guess_parameter s n v cv = Inr s' \<Longrightarrow>
     output_solution s' = output_solution s \<and> output_cost s' = output_cost s
     \<and> cost s' = cost s"
  by (auto simp: guess_variable_def guess_parameter_def Let_def
      split: if_splits pyval.splits option.splits sum.splits)

lemma guess_keeps_outputs:
  "set_initial_guess_internal s g cv = Inr s' \<Longrightarrow>
     output_solution s' = output_solution s \<and> output_cost s' = output_cost s
     \<and> cost s' = cost s"
  "guess_fields s fs cv = Inr s' \<Longrightarrow>
     output_solution s' = output_solution s \<and> output_cost s' = output_cost s
     \<and> cost s' = cost s"
  "guess_elements s msg gs vs i = Inr s' \<Longrightarrow>
     output_solution s' = output_solution s \<and> output_cost s' = output_cost s
     \<and> cost s' = cost s"
proof (induction s g cv and s fs cv and s msg gs vs i arbitrary: s' and s' and s'
       rule: set_initial_guess_internal_guess_fields_guess_elements.induct)
  case (10 s n m v fs cv)
  define body where "body =
    (if m = Some Variable then guess_variable s n v cv
            else if m = Some Parameter then guess_parameter s n v cv
            else
              (case v of
                 PObj gfs \<Rightarrow>
                   (case getattr cv n of
                      None \<Rightarrow>
                        Inl (ValueError (''The guess has the field '' @ n
                          @ '' but it is not present in the optimization structure''))
                    | Some nested \<Rightarrow> set_initial_guess_internal s (PObj gfs) nested)
               | PList gs \<Rightarrow>
                   if list_all is_optimization_object gs then
                     (case getattr cv n of
                        None \<Rightarrow>
                          Inl (ValueError (''The guess has the field '' @ n
                            @ '' but it is not present in the optimization structure''))
                      | Some corresponding_nested_variable \<Rightarrow>
                          if \<not> is_list corresponding_nested_variable then
                            Inl (ValueError (''The guess has the field '' @ n
                              @ '' as list, but the corresponding structure is not a list''))
                          else
                            guess_elements s
                              (''The input guess is the list '' @ n
                                @ '' but the corresponding variable structure is not a list'')
                              gs (elements corresponding_nested_variable) 0)
                   else Inr s
               | _ \<Rightarrow> Inr s))"
  from 10(4) obtain s1 where b: "body = Inr s1" and r: "guess_fields s1 fs cv = Inr s'"
    by (auto simp: body_def split: sum.splits)
  have k1: "output_solution s1 = output_solution s \<and> output_cost s1 = output_cost s
     \<and> cost s1 = cost s"
  proof (cases "m = Some Variable")
    case True
    with b show ?thesis by (auto simp: body_def dest: guess_storage_keeps_outputs)
  next
    case nv: False
    show ?thesis
    proof (cases "m = Some Parameter")
      case True
      with b nv show ?thesis by (auto simp: body_def dest: guess_storage_keeps_outputs)
    next
      case np: False
      show ?thesis
      proof (cases v)
        case (PObj gfs)
        with b nv np obtain nested where
          g: "getattr cv n = Some nested" and
          c: "set_initial_guess_internal s (PObj gfs) nested = Inr s1"
          by (auto simp: body_def split: option.splits)
        from 10(2)[OF nv np PObj g c] show ?thesis .
      next
        case (PList gs)
        show ?thesis
        proof (cases "list_all is_optimization_object gs")
          case False
          with b nv np PList show ?thesis by (simp add: body_def)
        next
          case True
          with b nv np PList obtain cn where
            g: "getattr cv n = Some cn" and il: "\<not> \<not> is_list cn" and
            c: "guess_elements s (''The input guess is the list '' @ n
                  @ '' but the corresponding variable structure is not a list'')
                  gs (elements cn) 0 = Inr s1"
            by (auto simp: body_def split: option.splits if_splits)
          from 10(1)[OF nv np PList True g il c] show ?thesis .
        qed
      qed (use b nv np in \<open>simp_all add: body_def\<close>)
    qed
  qed
  from 10(3)[OF b[unfolded body_def] r] k1 show ?case by simp
next
  case (12 s msg element rest vs i)
  from 12(3) obtain s1 where
    lt: "\<not> length vs \<le> i" and
    a: "set_initial_guess_internal s element (vs ! i) = Inr s1" and
    b: "guess_elements s1 msg rest vs (Suc i) = Inr s'"
    by (auto split: if_splits sum.splits)
  from 12(1)[OF lt a] 12(2)[OF lt a b] show ?case by simp
qed simp_all

lemma set_initial_guess_keeps_outputs:
  "set_initial_guess s g = Inr s' \<Longrightarrow>
     output_solution s' = output_solution s \<and> output_cost s' = output_cost s
     \<and> cost s' = cost s"
  unfolding set_initial_guess_def
  by (cases g) (auto split: if_splits dest: guess_keeps_outputs)

subsection \<open>Solving without a cost\<close>

text \<open>
  Claim C1. A new session has no cost, and \<open>add_constraint\<close>,
  \<open>generate_optimization_objects\<close> and \<open>set_initial_guess\<close> leave the cost as it is, so
  a session on which \<open>add_cost\<close> was never called has none. On a session without a cost
  \<open>solve\<close> fails, and the session is as before the call. The function has no test of its
  own: its first statement hands the absent cost to the engine's \<open>minimize\<close>, which
  raises the \<open>NotImplementedError\<close> of its binding, and this is the error that the spec
  names NoCostError. The engine's solve is not reached: whatever it would do, the outcome is
  the same.
\<close>

theorem solve_without_cost:
  "cost (post_init :: 'sol opti_solver) = None
   \<and> (\<forall>a. cost (add_constraint s a) = cost s)
   \<and> (\<forall>v s' w. generate_optimization_objects s v = Inr (s', w) \<longrightarrow> cost s' = cost s)
   \<and> (\<forall>g s'. set_initial_guess s g = Inr s' \<longrightarrow> cost s' = cost s)
   \<and> (cost s = None \<longrightarrow>
        solve be s = Inl (NotImplementedError, s)
        \<and> (\<forall>f. solve (be\<lparr>nlp_solve := f\<rparr>) s = Inl (NotImplementedError, s)))"
proof -
  have c0: "cost (post_init :: 'sol opti_solver) = None" by (simp add: post_init_def)
  have c1: "\<forall>a. cost (add_constraint s a) = cost s" by (simp add: add_constraint_def)
  have c2: "\<forall>v s' w. generate_optimization_objects s v = Inr (s', w) \<longrightarrow> cost s' = cost s"
    using generate_keeps_outputs(1) by blast
  have c3: "\<forall>g s'. set_initial_guess s g = Inr s' \<longrightarrow> cost s' = cost s"
    using set_initial_guess_keeps_outputs by blast
  have c4: "cost s = None \<longrightarrow>
        solve be s = Inl (NotImplementedError, s)
        \<and> (\<forall>f. solve (be\<lparr>nlp_solve := f\<rparr>) s = Inl (NotImplementedError, s))"
    by (simp add: solve_def opti_minimize_def)
  from c0 c1 c2 c3 c4 show ?thesis by (intro conjI)
qed

theorem solve_without_cost_witness:
  "generate_optimization_objects (post_init :: unit opti_solver) example_template
     = Inr (example_session\<lparr>cost := None\<rparr>, example_symbolic)
   \<and> cost (example_session\<lparr>cost := None\<rparr>) = None
   \<and> solve lenient_nlp (example_session\<lparr>cost := None\<rparr>)
       = Inl (NotImplementedError, example_session\<lparr>cost := None\<rparr>)
   \<and> solve failing_nlp (example_session\<lparr>cost := None\<rparr>)
       = Inl (NotImplementedError, example_session\<lparr>cost := None\<rparr>)"
proof -
  have g: "generate_optimization_objects (post_init :: unit opti_solver) example_template
     = Inr (example_session\<lparr>cost := None\<rparr>, example_symbolic)"
    by (simp add: example_template_def example_symbolic_def example_session_def post_init_def
      new_opti_def generate_storage_def generate_opti_object_def normalize_value_def
      expand_dims_def opti_declare_def opti_symbol_def deepcopy_def)
  from solve_without_cost [of "post_init :: unit opti_solver" lenient_nlp] g
  have c: "cost (example_session\<lparr>cost := None\<rparr>) = None" by metis
  from solve_without_cost [of "example_session\<lparr>cost := None\<rparr>" lenient_nlp] c
  have l: "solve lenient_nlp (example_session\<lparr>cost := None\<rparr>)
       = Inl (NotImplementedError, example_session\<lparr>cost := None\<rparr>)" by blast
  from solve_without_cost [of "example_session\<lparr>cost := None\<rparr>" failing_nlp] c
  have f: "solve failing_nlp (example_session\<lparr>cost := None\<rparr>)
       = Inl (NotImplementedError, example_session\<lparr>cost := None\<rparr>)" by blast
  from g c l f show ?thesis by (intro conjI)
qed

subsection \<open>Availability of the solution\<close>

lemma generate_solution_output_not_None:
  "generate_solution_output be sol v = Inr out \<Longrightarrow> out \<noteq> PNone"
  by (cases v) (auto split: sum.splits)

text \<open>
  What holds of the two getters. They fail on a new session, and no operation but
  \<open>solve\<close> changes what they return. When the engine raises, in \<open>minimize\<close> or in its
  solve, \<open>solve\<close> fails with that error and the cached solution and cost are as before.
  When \<open>solve\<close> returns, the getters return the solution structure and the cost that it
  cached. The getters take no engine and return no session: a call reads the cache and
  cannot solve again.
\<close>

lemma getters_before_solve:
  "get_values (post_init :: 'sol opti_solver) = Inl SolutionNotAvailableException"
  "get_cost_value (post_init :: 'sol opti_solver) = Inl SolutionNotAvailableException"
  "get_values (add_cost s a) = get_values s"
  "get_cost_value (add_cost s a) = get_cost_value s"
  "get_values (add_constraint s a) = get_values s"
  "get_cost_value (add_constraint s a) = get_cost_value s"
  "generate_optimization_objects s v = Inr (s', w) \<Longrightarrow> get_values s' = get_values s"
  "generate_optimization_objects s v = Inr (s', w) \<Longrightarrow> get_cost_value s' = get_cost_value s"
  "set_initial_guess s g = Inr s' \<Longrightarrow> get_values s' = get_values s"
  "set_initial_guess s g = Inr s' \<Longrightarrow> get_cost_value s' = get_cost_value s"
  using generate_keeps_outputs(1)[of s v s' w] set_initial_guess_keeps_outputs[of s g s']
  by (simp_all add: get_values_def get_cost_value_def post_init_def add_cost_def
      add_constraint_def split: option.splits)

lemma solve_engine_failure:
  "opti_minimize be (solver s) (cost s) = Inl e \<Longrightarrow> solve be s = Inl (e, s)"
  "opti_minimize be (solver s) (cost s) = Inr ob \<Longrightarrow> nlp_solve be ob = Inl msg \<Longrightarrow>
     solve be s = Inl (EngineError msg, s\<lparr>solver := ob\<rparr>)
     \<and> get_values (s\<lparr>solver := ob\<rparr>) = get_values s
     \<and> get_cost_value (s\<lparr>solver := ob\<rparr>) = get_cost_value s"
  by (simp_all add: solve_def Let_def get_values_def get_cost_value_def)

lemma solve_returns:
  "solve be s = Inr s' \<Longrightarrow>
     \<exists>ob sol c out. opti_minimize be (solver s) (cost s) = Inr ob
       \<and> nlp_solve be ob = Inr sol
       \<and> nlp_value be sol (cost_argument (cost s)) = Inr c
       \<and> generate_solution_output be sol (variables s) = Inr out
       \<and> out \<noteq> PNone
       \<and> s' = s\<lparr>solver := ob, opti_solution := Some sol, output_cost := Some c,
                 output_solution := out\<rparr>
       \<and> get_values s' = Inr out \<and> get_cost_value s' = Inr c"
  by (auto simp: solve_def Let_def get_values_def get_cost_value_def
      split: option.splits sum.splits dest: generate_solution_output_not_None)

lemma solve_extraction_failure:
  "opti_minimize be (solver s) (cost s) = Inr ob \<Longrightarrow> nlp_solve be ob = Inr sol \<Longrightarrow>
   nlp_value be sol (cost_argument (cost s)) = Inr c \<Longrightarrow>
   generate_solution_output be sol (variables s) = Inl e \<Longrightarrow>
     solve be s = Inl (e, s\<lparr>solver := ob, opti_solution := Some sol, output_cost := Some c\<rparr>)
     \<and> get_cost_value (s\<lparr>solver := ob, opti_solution := Some sol, output_cost := Some c\<rparr>)
         = Inr c"
  by (simp add: solve_def Let_def get_cost_value_def)

text \<open>
  Claim C5 says that \<open>get_values\<close> and \<open>get_cost_value\<close> fail after a failed solve, the
  cached solution and cost being untouched. \<open>solve\<close> caches the cost (line 409) before it
  builds the solution structure (line 410), and building it can raise: by the comment above
  \<open>_generate_solution_output\<close> a storage field that holds a list is not handled, and
  \<open>OptiSol.value\<close> refuses the list of handles that the generator put there. On the
  session generated from a template with such a field, with the cost 0 and an engine that
  solves, the getters fail before \<open>solve\<close>, \<open>solve\<close> fails, and afterwards
  \<open>get_values\<close> fails but \<open>get_cost_value\<close> returns the cost of the failed solve.
\<close>

theorem failed_solve_caches_cost:
  "generate_optimization_objects (post_init :: unit opti_solver) list_storage_template
     = Inr (list_storage_session, variables list_storage_session)
   \<and> get_values (add_cost list_storage_session (MXConst 0))
       = Inl SolutionNotAvailableException
   \<and> get_cost_value (add_cost list_storage_session (MXConst 0))
       = Inl SolutionNotAvailableException
   \<and> solve lenient_nlp (add_cost list_storage_session (MXConst 0))
       = Inl (EngineError ''value'',
              list_storage_session
                \<lparr>cost := Some (MXConst 0),
                 solver := (solver list_storage_session)\<lparr>objective := Some (MXConst 0)\<rparr>,
                 opti_solution := Some (), output_cost := Some (NDArray [] [0])\<rparr>)
   \<and> get_values
        (list_storage_session
           \<lparr>cost := Some (MXConst 0),
            solver := (solver list_storage_session)\<lparr>objective := Some (MXConst 0)\<rparr>,
            opti_solution := Some (), output_cost := Some (NDArray [] [0])\<rparr>)
       = Inl SolutionNotAvailableException
   \<and> get_cost_value
        (list_storage_session
           \<lparr>cost := Some (MXConst 0),
            solver := (solver list_storage_session)\<lparr>objective := Some (MXConst 0)\<rparr>,
            opti_solution := Some (), output_cost := Some (NDArray [] [0])\<rparr>)
       = Inr (NDArray [] [0])"
  by (simp add: list_storage_template_def list_storage_session_def post_init_def new_opti_def
      generate_storage_def generate_opti_object_def normalize_value_def expand_dims_def
      opti_declare_def opti_symbol_def deepcopy_def add_cost_def get_values_def
      get_cost_value_def solve_def opti_minimize_def cost_argument_def nlp_examples)

section \<open>Properties of the generator\<close>

lemmas generate_eval = generate_storage_def generate_opti_object_def normalize_value_def
  expand_dims_def opti_declare_def opti_symbol_def deepcopy_def post_init_def new_opti_def

subsection \<open>The loop over the fields\<close>

lemma asdict_array_list: "asdict_list (map PArray arrs) = map PArray arrs"
  by (induction arrs) (simp_all add: deepcopy_def)

lemma generate_fields_length:
  "generate_fields s fs = Inr (s', gs) \<Longrightarrow> length gs = length fs"
  by (induction fs arbitrary: s s' gs) (auto split: sum.splits prod.splits)

lemma generate_elements_length:
  "generate_elements s xs = Inr (s', ys) \<Longrightarrow> length ys = length xs"
  by (induction xs arbitrary: s s' ys) (auto split: sum.splits prod.splits)

lemma generate_fields_nth:
  "generate_fields s fs = Inr (s', gs) \<Longrightarrow> i < length fs \<Longrightarrow>
     \<exists>si gi sj. generate_fields s (take i fs) = Inr (si, gi)
        \<and> generate_field si (fs ! i) = Inr (sj, gs ! i)"
proof (induction fs arbitrary: s s' gs i)
  case Nil
  then show ?case by simp
next
  case (Cons f fs)
  from Cons.prems(1) obtain s1 g gs' where
    a: "generate_field s f = Inr (s1, g)" and
    b: "generate_fields s1 fs = Inr (s', gs')" and
    c: "gs = g # gs'"
    by (auto split: sum.splits prod.splits)
  show ?case
  proof (cases i)
    case 0
    with a c show ?thesis by simp
  next
    case (Suc j)
    with Cons.prems(2) have "j < length fs" by simp
    from Cons.IH[OF b this] obtain si gi sj where
      "generate_fields s1 (take j fs) = Inr (si, gi)"
      "generate_field si (fs ! j) = Inr (sj, gs' ! j)" by blast
    with a c Suc show ?thesis by simp
  qed
qed

lemma generate_fields_first_failure:
  "generate_fields s (take i fs) = Inr (si, gi) \<Longrightarrow> i < length fs \<Longrightarrow>
     generate_field si (fs ! i) = Inl e \<Longrightarrow> generate_fields s fs = Inl e"
proof (induction fs arbitrary: s i gi)
  case Nil
  then show ?case by simp
next
  case (Cons f fs)
  show ?case
  proof (cases i)
    case 0
    with Cons.prems show ?thesis by simp
  next
    case (Suc j)
    with Cons.prems(1) obtain s1 g gj where
      a: "generate_field s f = Inr (s1, g)" and
      b: "generate_fields s1 (take j fs) = Inr (si, gj)"
      by (auto split: sum.splits prod.splits)
    from Cons.prems(2,3) Suc have "j < length fs" "generate_field si (fs ! j) = Inl e" by simp_all
    from Cons.IH[OF b this] a show ?thesis by simp
  qed
qed

lemma generate_fields_some_failure:
  "i < length fs \<Longrightarrow> \<forall>si :: 'sol opti_solver. \<exists>e. generate_field si (fs ! i) = Inl e \<Longrightarrow>
     \<exists>e. generate_fields (s :: 'sol opti_solver) fs = Inl e"
proof (induction fs arbitrary: s i)
  case Nil
  then show ?case by simp
next
  case (Cons f fs)
  show ?case
  proof (cases i)
    case 0
    from Cons.prems(2) have "\<exists>e. generate_field s ((f # fs) ! i) = Inl e" by blast
    with 0 obtain e where "generate_field s f = Inl e" by auto
    then show ?thesis by simp
  next
    case (Suc j)
    from Cons.prems(1) Suc have j1: "j < length fs" by simp
    from Cons.prems(2) Suc have j2: "\<forall>si :: 'sol opti_solver. \<exists>e. generate_field si (fs ! j) = Inl e" by simp
    note j = j1 j2
    show ?thesis
    proof (cases "generate_field s f")
      case (Inl e)
      then show ?thesis by simp
    next
      case (Inr r)
      obtain s1 g where r: "r = (s1, g)" by (cases r)
      from Cons.IH[OF j, of s1] obtain e where "generate_fields s1 fs = Inl e" by blast
      with Inr r show ?thesis by simp
    qed
  qed
qed

text \<open>The storage step of one field.\<close>

lemma generate_opti_object_None:
  "generate_opti_object ob st name PNone =
     Inl (ValueError (''Field '' @ name @ '' is tagged as storage, but it is None.''))"
  by (simp add: generate_opti_object_def)

lemma generate_opti_object_high_rank:
  "2 < length shp \<Longrightarrow> generate_opti_object ob st name (PArray (NDArray shp d)) =
     Inl (ValueError (''Field '' @ name @ '' has number of dimensions greater than 2.''))"
  by (simp add: generate_opti_object_def normalize_value_def)

lemma generate_opti_object_vector:
  "st = Variable \<or> st = Parameter \<Longrightarrow>
   generate_opti_object ob st name (PArray (NDArray [N] d)) =
     Inr (ob\<lparr>declared := declared ob @ [(st, N, 1)]\<rparr>, MXSym (length (declared ob)) N 1)"
  by (auto simp: generate_opti_object_def normalize_value_def expand_dims_def opti_declare_def
      opti_symbol_def)

lemma generate_opti_object_matrix:
  "st = Variable \<or> st = Parameter \<Longrightarrow>
   generate_opti_object ob st name (PArray (NDArray [R, C] d)) =
     Inr (ob\<lparr>declared := declared ob @ [(st, R, C)]\<rparr>, MXSym (length (declared ob)) R C)"
  by (auto simp: generate_opti_object_def normalize_value_def expand_dims_def opti_declare_def
      opti_symbol_def)

lemma generate_opti_object_array_result:
  "generate_opti_object ob st name (PArray (NDArray shp d)) = Inr (ob', h) \<Longrightarrow>
     (st = Variable \<or> st = Parameter)
     \<and> (\<exists>N. shp = [N] \<and> h = MXSym (length (declared ob)) N 1
            \<and> ob' = ob\<lparr>declared := declared ob @ [(st, N, 1)]\<rparr>)
       \<or> (st = Variable \<or> st = Parameter)
     \<and> (\<exists>R C. shp = [R, C] \<and> h = MXSym (length (declared ob)) R C
            \<and> ob' = ob\<lparr>declared := declared ob @ [(st, R, C)]\<rparr>)"
proof -
  assume a: "generate_opti_object ob st name (PArray (NDArray shp d)) = Inr (ob', h)"
  have r: "\<not> 2 < length shp" using a generate_opti_object_high_rank[of shp ob st name d] by auto
  have st: "st = Variable \<or> st = Parameter"
    using a by (auto simp: generate_opti_object_def split: sum.splits if_splits)
  have "shp \<noteq> []"
    using a by (auto simp: generate_opti_object_def normalize_value_def expand_dims_def split: if_splits)
  with r have "(\<exists>N. shp = [N]) \<or> (\<exists>R C. shp = [R, C])"
    by (cases shp rule: list.exhaust; simp) (metis list.exhaust list.size(3) length_Cons less_Suc_eq not_less_eq numeral_2_eq_2 Suc_less_eq zero_less_Suc)
  then consider N where "shp = [N]" | R C where "shp = [R, C]" by blast
  then show ?thesis
  proof cases
    case 1
    with a st generate_opti_object_vector[OF st, of ob name N d] show ?thesis by auto
  next
    case 2
    with a st generate_opti_object_matrix[OF st, of ob name R C d] show ?thesis by auto
  qed
qed

lemma generate_field_None:
  "generate_field s (DField name (Some st) PNone) =
     Inl (ValueError (''Field '' @ name @ '' is tagged as storage, but it is None.''))"
  by (simp add: generate_storage_def deepcopy_def generate_opti_object_None)

lemma generate_field_high_rank:
  "2 < length shp \<Longrightarrow> generate_field s (DField name (Some st) (PArray (NDArray shp d))) =
     Inl (ValueError (''Field '' @ name @ '' has number of dimensions greater than 2.''))"
  by (simp add: generate_storage_def deepcopy_def generate_opti_object_high_rank)

lemma generate_field_vector:
  "st = Variable \<or> st = Parameter \<Longrightarrow>
   generate_field s (DField name (Some st) (PArray (NDArray [N] d))) =
     Inr (s\<lparr>solver := (solver s)\<lparr>declared := declared (solver s) @ [(st, N, 1)]\<rparr>\<rparr>,
          DField name (Some st) (PMX (MXSym (length (declared (solver s))) N 1)))"
  by (simp add: generate_storage_def deepcopy_def generate_opti_object_vector)

lemma generate_field_matrix:
  "st = Variable \<or> st = Parameter \<Longrightarrow>
   generate_field s (DField name (Some st) (PArray (NDArray [R, C] d))) =
     Inr (s\<lparr>solver := (solver s)\<lparr>declared := declared (solver s) @ [(st, R, C)]\<rparr>\<rparr>,
          DField name (Some st) (PMX (MXSym (length (declared (solver s))) R C)))"
  by (simp add: generate_storage_def deepcopy_def generate_opti_object_matrix)

lemma generate_field_array_result:
  assumes "generate_field s (DField name (Some st) (PArray (NDArray shp d))) = Inr (s', g)"
  shows "\<exists>h. g = DField name (Some st) (PMX h)
     \<and> ((\<exists>N. shp = [N] \<and> mx_shape h = [N, 1]) \<or> (\<exists>R C. shp = [R, C] \<and> mx_shape h = [R, C]))"
proof -
  from assms obtain ob h where
    a: "generate_opti_object (solver s) st name (PArray (NDArray shp d)) = Inr (ob, h)" and
    g: "g = DField name (Some st) (PMX h)"
    by (auto simp: generate_storage_def deepcopy_def split: sum.splits prod.splits)
  from generate_opti_object_array_result[OF a] g show ?thesis by auto
qed

lemma generate_object_result:
  "generate_optimization_objects s (PObj fs) = Inr (s', out) \<Longrightarrow>
     \<exists>s1 gs. generate_fields s fs = Inr (s1, gs) \<and> out = PObj gs \<and> length gs = length fs
        \<and> s' = s1\<lparr>variables := PObj gs\<rparr>"
  by (auto split: sum.splits prod.splits dest: generate_fields_length)

text \<open>
  Claim C2. For a field tagged as storage, \<open>generate\<close> derives the shape of the symbolic
  handle from the template value of the field. On the body of the loop (\<open>generate_field\<close>):
  a value \<open>None\<close> fails with the \<open>ValueError\<close> that names the field and says it is
  \<open>None\<close>; an array of rank 3 or more fails with the \<open>ValueError\<close> that names the field and
  says it has more than 2 dimensions; with the role Variable or Parameter, a 1-D array of
  length \<open>N\<close> gives a fresh symbol of shape \<open>(N, 1)\<close> and a 2-D array of shape \<open>(R, C)\<close> a
  fresh symbol of shape \<open>(R, C)\<close>. On the whole structure: when \<open>generate\<close> returns, the
  field holds a handle of that shape in the result, which has as many fields as the
  template; a structure with a storage field that is \<open>None\<close> or of rank 3 or more makes
  \<open>generate\<close> fail, and with the \<open>ValueError\<close> of that field when the fields before it
  were generated. The two \<open>ValueError\<close>s are the spec's ShapeError.
\<close>

theorem storage_shape:
  "generate_field (s :: 'sol opti_solver) (DField name (Some st) PNone)
     = Inl (ValueError (''Field '' @ name @ '' is tagged as storage, but it is None.''))
   \<and> (2 < length shp \<longrightarrow>
        generate_field s (DField name (Some st) (PArray (NDArray shp d)))
          = Inl (ValueError (''Field '' @ name @ '' has number of dimensions greater than 2.'')))
   \<and> (st = Variable \<or> st = Parameter \<longrightarrow>
        generate_field s (DField name (Some st) (PArray (NDArray [N] d)))
          = Inr (s\<lparr>solver := (solver s)\<lparr>declared := declared (solver s) @ [(st, N, 1)]\<rparr>\<rparr>,
                 DField name (Some st) (PMX (MXSym (length (declared (solver s))) N 1)))
        \<and> mx_shape (MXSym (length (declared (solver s))) N 1) = [N, 1]
        \<and> generate_field s (DField name (Some st) (PArray (NDArray [R, C] d)))
          = Inr (s\<lparr>solver := (solver s)\<lparr>declared := declared (solver s) @ [(st, R, C)]\<rparr>\<rparr>,
                 DField name (Some st) (PMX (MXSym (length (declared (solver s))) R C)))
        \<and> mx_shape (MXSym (length (declared (solver s))) R C) = [R, C])
   \<and> (\<forall>s' out. generate_optimization_objects s (PObj fs) = Inr (s', out) \<and> i < length fs
          \<and> fs ! i = DField name (Some st) (PArray (NDArray shp d)) \<longrightarrow>
        (\<exists>gs h. out = PObj gs \<and> length gs = length fs
           \<and> gs ! i = DField name (Some st) (PMX h)
           \<and> ((\<exists>N. shp = [N] \<and> mx_shape h = [N, 1])
               \<or> (\<exists>R C. shp = [R, C] \<and> mx_shape h = [R, C]))))
   \<and> (i < length fs
        \<and> (fs ! i = DField name (Some st) PNone
            \<or> fs ! i = DField name (Some st) (PArray (NDArray shp d)) \<and> 2 < length shp) \<longrightarrow>
        (\<exists>e. generate_optimization_objects s (PObj fs) = Inl e))
   \<and> (\<forall>si gi. generate_fields s (take i fs) = Inr (si, gi) \<and> i < length fs \<longrightarrow>
        (fs ! i = DField name (Some st) PNone \<longrightarrow>
           generate_optimization_objects s (PObj fs)
             = Inl (ValueError (''Field '' @ name @ '' is tagged as storage, but it is None.'')))
        \<and> (fs ! i = DField name (Some st) (PArray (NDArray shp d)) \<and> 2 < length shp \<longrightarrow>
           generate_optimization_objects s (PObj fs)
             = Inl (ValueError (''Field '' @ name
                     @ '' has number of dimensions greater than 2.''))))"
proof -
  have c1: "generate_field s (DField name (Some st) PNone)
     = Inl (ValueError (''Field '' @ name @ '' is tagged as storage, but it is None.''))"
    by (rule generate_field_None)
  have c2: "2 < length shp \<longrightarrow>
        generate_field s (DField name (Some st) (PArray (NDArray shp d)))
          = Inl (ValueError (''Field '' @ name @ '' has number of dimensions greater than 2.''))"
    using generate_field_high_rank[of shp s name st d] by blast
  have c3: "st = Variable \<or> st = Parameter \<longrightarrow>
        generate_field s (DField name (Some st) (PArray (NDArray [N] d)))
          = Inr (s\<lparr>solver := (solver s)\<lparr>declared := declared (solver s) @ [(st, N, 1)]\<rparr>\<rparr>,
                 DField name (Some st) (PMX (MXSym (length (declared (solver s))) N 1)))
        \<and> mx_shape (MXSym (length (declared (solver s))) N 1) = [N, 1]
        \<and> generate_field s (DField name (Some st) (PArray (NDArray [R, C] d)))
          = Inr (s\<lparr>solver := (solver s)\<lparr>declared := declared (solver s) @ [(st, R, C)]\<rparr>\<rparr>,
                 DField name (Some st) (PMX (MXSym (length (declared (solver s))) R C)))
        \<and> mx_shape (MXSym (length (declared (solver s))) R C) = [R, C]"
    using generate_field_vector[of st s name N d] generate_field_matrix[of st s name R C d]
    by (simp del: generate_field.simps)
  have c4: "\<forall>s' out. generate_optimization_objects s (PObj fs) = Inr (s', out) \<and> i < length fs
          \<and> fs ! i = DField name (Some st) (PArray (NDArray shp d)) \<longrightarrow>
        (\<exists>gs h. out = PObj gs \<and> length gs = length fs
           \<and> gs ! i = DField name (Some st) (PMX h)
           \<and> ((\<exists>N. shp = [N] \<and> mx_shape h = [N, 1])
               \<or> (\<exists>R C. shp = [R, C] \<and> mx_shape h = [R, C])))"
  proof (intro allI impI, elim conjE)
    fix s' out
    assume g: "generate_optimization_objects s (PObj fs) = Inr (s', out)"
      and i: "i < length fs"
      and f: "fs ! i = DField name (Some st) (PArray (NDArray shp d))"
    from generate_object_result[OF g] obtain s1 gs where
      gf: "generate_fields s fs = Inr (s1, gs)" and o: "out = PObj gs"
      and l: "length gs = length fs" by blast
    from generate_fields_nth[OF gf i] f obtain si sj :: "'sol opti_solver" where
      "generate_field si (DField name (Some st) (PArray (NDArray shp d))) = Inr (sj, gs ! i)"
      by (auto simp del: generate_field.simps)
    from generate_field_array_result[OF this] o l
    show "\<exists>gs h. out = PObj gs \<and> length gs = length fs
           \<and> gs ! i = DField name (Some st) (PMX h)
           \<and> ((\<exists>N. shp = [N] \<and> mx_shape h = [N, 1])
               \<or> (\<exists>R C. shp = [R, C] \<and> mx_shape h = [R, C]))"
      by blast
  qed
  have c5: "i < length fs
        \<and> (fs ! i = DField name (Some st) PNone
            \<or> fs ! i = DField name (Some st) (PArray (NDArray shp d)) \<and> 2 < length shp) \<longrightarrow>
        (\<exists>e. generate_optimization_objects s (PObj fs) = Inl e)"
  proof (intro impI, elim conjE)
    assume i: "i < length fs"
      and f: "fs ! i = DField name (Some st) PNone
            \<or> fs ! i = DField name (Some st) (PArray (NDArray shp d)) \<and> 2 < length shp"
    have "\<forall>si :: 'sol opti_solver. \<exists>e. generate_field si (fs ! i) = Inl e"
      using f generate_field_None generate_field_high_rank by metis
    from generate_fields_some_failure[OF i this, of s]
    show "\<exists>e. generate_optimization_objects s (PObj fs) = Inl e" by auto
  qed
  have c6: "\<forall>si gi. generate_fields s (take i fs) = Inr (si, gi) \<and> i < length fs \<longrightarrow>
        (fs ! i = DField name (Some st) PNone \<longrightarrow>
           generate_optimization_objects s (PObj fs)
             = Inl (ValueError (''Field '' @ name @ '' is tagged as storage, but it is None.'')))
        \<and> (fs ! i = DField name (Some st) (PArray (NDArray shp d)) \<and> 2 < length shp \<longrightarrow>
           generate_optimization_objects s (PObj fs)
             = Inl (ValueError (''Field '' @ name
                     @ '' has number of dimensions greater than 2.'')))"
  proof (intro allI impI conjI; elim conjE)
    fix si gi
    assume p: "generate_fields s (take i fs) = Inr (si, gi)" and i: "i < length fs"
      and f: "fs ! i = DField name (Some st) PNone"
    have "generate_field si (fs ! i) =
       Inl (ValueError (''Field '' @ name @ '' is tagged as storage, but it is None.''))"
      unfolding f by (rule generate_field_None)
    from generate_fields_first_failure[OF p i this]
    show "generate_optimization_objects s (PObj fs)
             = Inl (ValueError (''Field '' @ name @ '' is tagged as storage, but it is None.''))"
      by simp
  next
    fix si gi
    assume p: "generate_fields s (take i fs) = Inr (si, gi)" and i: "i < length fs"
      and f: "fs ! i = DField name (Some st) (PArray (NDArray shp d))" and r: "2 < length shp"
    have "generate_field si (fs ! i) =
       Inl (ValueError (''Field '' @ name @ '' has number of dimensions greater than 2.''))"
      unfolding f using r by (rule generate_field_high_rank)
    from generate_fields_first_failure[OF p i this]
    show "generate_optimization_objects s (PObj fs)
             = Inl (ValueError (''Field '' @ name
                     @ '' has number of dimensions greater than 2.''))"
      by simp
  qed
  from c1 c2 c3 c4 c5 c6 show ?thesis by (intro conjI)
qed

theorem storage_shape_witness:
  "generate_optimization_objects (post_init :: unit opti_solver) example_template
     = Inr (example_session\<lparr>cost := None\<rparr>, example_symbolic)
   \<and> (\<exists>gs h. example_symbolic = PObj gs \<and> gs ! 0 = DField ''x'' (Some Variable) (PMX h)
         \<and> mx_shape h = [2, 1])
   \<and> (\<exists>gs h. example_symbolic = PObj gs \<and> gs ! 1 = DField ''p'' (Some Parameter) (PMX h)
         \<and> mx_shape h = [1, 1])
   \<and> generate_field (post_init :: unit opti_solver)
        (DField ''x'' (Some Variable) (PArray (NDArray [2, 3, 4] [])))
       = Inl (ValueError ''Field x has number of dimensions greater than 2.'')
   \<and> generate_optimization_objects (post_init :: unit opti_solver)
        (PObj [DField ''label'' None (PStr ''point''), DField ''x'' (Some Variable) PNone])
       = Inl (ValueError ''Field x is tagged as storage, but it is None.'')"
proof -
  have g: "generate_optimization_objects (post_init :: unit opti_solver) example_template
     = Inr (example_session\<lparr>cost := None\<rparr>, example_symbolic)"
    by (simp add: example_template_def example_symbolic_def example_session_def generate_eval)
  have f0: "0 < length [DField ''x'' (Some Variable) (PArray (NDArray [2] [0, 0])),
           DField ''p'' (Some Parameter) (PArray (NDArray [1, 1] [5])),
           DField ''label'' None (PStr ''point'')]
     \<and> [DField ''x'' (Some Variable) (PArray (NDArray [2] [0, 0])),
           DField ''p'' (Some Parameter) (PArray (NDArray [1, 1] [5])),
           DField ''label'' None (PStr ''point'')] ! 0
        = DField ''x'' (Some Variable) (PArray (NDArray [2] [0, 0]))"
    by simp
  have f1: "1 < length [DField ''x'' (Some Variable) (PArray (NDArray [2] [0, 0])),
           DField ''p'' (Some Parameter) (PArray (NDArray [1, 1] [5])),
           DField ''label'' None (PStr ''point'')]
     \<and> [DField ''x'' (Some Variable) (PArray (NDArray [2] [0, 0])),
           DField ''p'' (Some Parameter) (PArray (NDArray [1, 1] [5])),
           DField ''label'' None (PStr ''point'')] ! 1
        = DField ''p'' (Some Parameter) (PArray (NDArray [1, 1] [5]))"
    by simp
  from storage_shape [where s = "post_init :: unit opti_solver" and name = "''x''"
      and st = Variable and shp = "[2]" and d = "[0, 0]" and i = 0
      and fs = "[DField ''x'' (Some Variable) (PArray (NDArray [2] [0, 0])),
           DField ''p'' (Some Parameter) (PArray (NDArray [1, 1] [5])),
           DField ''label'' None (PStr ''point'')]"] g f0
  have w0: "\<exists>gs h. example_symbolic = PObj gs \<and> gs ! 0 = DField ''x'' (Some Variable) (PMX h)
         \<and> mx_shape h = [2, 1]"
    unfolding example_template_def by blast
  from storage_shape [where s = "post_init :: unit opti_solver" and name = "''p''"
      and st = Parameter and shp = "[1, 1]" and d = "[5]" and i = 1
      and fs = "[DField ''x'' (Some Variable) (PArray (NDArray [2] [0, 0])),
           DField ''p'' (Some Parameter) (PArray (NDArray [1, 1] [5])),
           DField ''label'' None (PStr ''point'')]"] g f1
  have w1: "\<exists>gs h. example_symbolic = PObj gs \<and> gs ! 1 = DField ''p'' (Some Parameter) (PMX h)
         \<and> mx_shape h = [1, 1]"
    unfolding example_template_def by blast
  have r: "2 < length [2, 3, 4 :: nat]" by simp
  from storage_shape [where s = "post_init :: unit opti_solver" and name = "''x''"
      and st = Variable and shp = "[2, 3, 4]" and d = "[]"] r
  have w2: "generate_field (post_init :: unit opti_solver)
        (DField ''x'' (Some Variable) (PArray (NDArray [2, 3, 4] [])))
       = Inl (ValueError (''Field '' @ ''x'' @ '' has number of dimensions greater than 2.''))"
    by blast
  have p: "generate_fields (post_init :: unit opti_solver)
        (take 1 [DField ''label'' None (PStr ''point''), DField ''x'' (Some Variable) PNone])
       = Inr (post_init, [DField ''label'' None (PStr ''point'')])
     \<and> 1 < length [DField ''label'' None (PStr ''point''), DField ''x'' (Some Variable) PNone]
     \<and> [DField ''label'' None (PStr ''point''), DField ''x'' (Some Variable) PNone] ! 1
         = DField ''x'' (Some Variable) PNone"
    by simp
  from storage_shape [where s = "post_init :: unit opti_solver" and name = "''x''"
      and st = Variable and i = 1
      and fs = "[DField ''label'' None (PStr ''point''), DField ''x'' (Some Variable) PNone]"] p
  have w3: "generate_optimization_objects (post_init :: unit opti_solver)
        (PObj [DField ''label'' None (PStr ''point''), DField ''x'' (Some Variable) PNone])
       = Inl (ValueError (''Field '' @ ''x'' @ '' is tagged as storage, but it is None.''))"
    by blast
  from g w0 w1 w2 w3 show ?thesis by simp
qed

subsection \<open>Lists of structures\<close>

lemma generate_elements_chain:
  "generate_elements s xs = Inr (s', ys) \<Longrightarrow>
     \<exists>ss. length ss = Suc (length xs) \<and> ss ! 0 = s \<and> ss ! length xs = s'
       \<and> (\<forall>i<length xs.
            generate_optimization_objects (ss ! i) (xs ! i) = Inr (ss ! Suc i, ys ! i))"
proof (induction xs arbitrary: s ys)
  case Nil
  then have "s' = s" by simp
  then show ?case by (intro exI[of _ "[s]"]) simp
next
  case (Cons x xs)
  from Cons.prems obtain s1 y ys' where
    a: "generate_optimization_objects s x = Inr (s1, y)" and
    b: "generate_elements s1 xs = Inr (s', ys')" and
    c: "ys = y # ys'"
    by (auto split: sum.splits prod.splits)
  from Cons.IH[OF b] obtain ss where
    l: "length ss = Suc (length xs)" and z: "ss ! 0 = s1" and e: "ss ! length xs = s'" and
    st: "\<forall>i<length xs.
            generate_optimization_objects (ss ! i) (xs ! i) = Inr (ss ! Suc i, ys' ! i)"
    by blast
  have "\<forall>i<length (x # xs).
          generate_optimization_objects ((s # ss) ! i) ((x # xs) ! i)
            = Inr ((s # ss) ! Suc i, ys ! i)"
  proof (intro allI impI)
    fix i assume i: "i < length (x # xs)"
    show "generate_optimization_objects ((s # ss) ! i) ((x # xs) ! i)
            = Inr ((s # ss) ! Suc i, ys ! i)"
    proof (cases i)
      case 0
      with a c z show ?thesis by simp
    next
      case (Suc j)
      with i have "j < length xs" by simp
      with st Suc c show ?thesis by simp
    qed
  qed
  with l e show ?case by (intro exI[of _ "s # ss"]) simp
qed

lemma generate_sets_variables:
  "generate_optimization_objects s v = Inr (s', out) \<Longrightarrow> variables s' = out"
  by (cases v) (auto split: sum.splits prod.splits)

text \<open>
  Claim C8. When \<open>generate_optimization_objects\<close> returns on a list of templates, it
  returns a list of the same length, and its elements are the results of
  \<open>generate_optimization_objects\<close> on the elements of the input, taken in order: there is
  a chain of sessions, starting with the session of the call, in which the call on element
  \<open>i\<close> leads from session \<open>i\<close> to session \<open>i + 1\<close>. The session returned is the last of
  the chain with \<open>_variables\<close> set to the returned list. For any input, list or single
  structure, \<open>get_optimization_objects\<close> on the session returned gives the value returned,
  whatever the session tracked before.
\<close>

theorem list_generation:
  "(\<forall>s' out. generate_optimization_objects (s :: 'sol opti_solver) (PList xs) = Inr (s', out) \<longrightarrow>
      (\<exists>ys ss. out = PList ys \<and> length ys = length xs
         \<and> length ss = Suc (length xs) \<and> ss ! 0 = s
         \<and> (\<forall>i<length xs.
              generate_optimization_objects (ss ! i) (xs ! i) = Inr (ss ! Suc i, ys ! i))
         \<and> s' = (ss ! length xs)\<lparr>variables := PList ys\<rparr>))
   \<and> (\<forall>s' out. generate_optimization_objects s v = Inr (s', out) \<longrightarrow>
         get_optimization_objects s' = out)"
proof (intro conjI allI impI)
  fix s' out
  assume g: "generate_optimization_objects s (PList xs) = Inr (s', out)"
  then obtain s1 ys where
    e: "generate_elements s xs = Inr (s1, ys)" and o: "out = PList ys"
    and s': "s' = s1\<lparr>variables := PList ys\<rparr>"
    by (auto split: sum.splits prod.splits)
  from generate_elements_chain[OF e] obtain ss where
    "length ss = Suc (length xs)" "ss ! 0 = s" "ss ! length xs = s1"
    "\<forall>i<length xs.
        generate_optimization_objects (ss ! i) (xs ! i) = Inr (ss ! Suc i, ys ! i)"
    by blast
  with o s' generate_elements_length[OF e]
  show "\<exists>ys ss. out = PList ys \<and> length ys = length xs
         \<and> length ss = Suc (length xs) \<and> ss ! 0 = s
         \<and> (\<forall>i<length xs.
              generate_optimization_objects (ss ! i) (xs ! i) = Inr (ss ! Suc i, ys ! i))
         \<and> s' = (ss ! length xs)\<lparr>variables := PList ys\<rparr>"
    by blast
next
  fix s' out
  assume "generate_optimization_objects s v = Inr (s', out)"
  then show "get_optimization_objects s' = out"
    by (simp add: get_optimization_objects_def generate_sets_variables)
qed

theorem list_generation_witness:
  "generate_optimization_objects (post_init :: unit opti_solver)
      (PList [PObj [DField ''x'' (Some Variable) (PArray (NDArray [2] [0, 0]))],
              PObj [DField ''x'' (Some Variable) (PArray (NDArray [3] [0, 0, 0]))]])
     = Inr (post_init\<lparr>solver := new_opti\<lparr>declared := [(Variable, 2, 1), (Variable, 3, 1)]\<rparr>,
              variables := PList [PObj [DField ''x'' (Some Variable) (PMX (MXSym 0 2 1))],
                                  PObj [DField ''x'' (Some Variable) (PMX (MXSym 1 3 1))]]\<rparr>,
            PList [PObj [DField ''x'' (Some Variable) (PMX (MXSym 0 2 1))],
                   PObj [DField ''x'' (Some Variable) (PMX (MXSym 1 3 1))]])
   \<and> get_optimization_objects
        (post_init\<lparr>solver := new_opti\<lparr>declared := [(Variable, 2, 1), (Variable, 3, 1)]\<rparr>,
              variables := PList [PObj [DField ''x'' (Some Variable) (PMX (MXSym 0 2 1))],
                                  PObj [DField ''x'' (Some Variable) (PMX (MXSym 1 3 1))]]\<rparr>
          :: unit opti_solver)
       = PList [PObj [DField ''x'' (Some Variable) (PMX (MXSym 0 2 1))],
                PObj [DField ''x'' (Some Variable) (PMX (MXSym 1 3 1))]]"
proof -
  have g: "generate_optimization_objects (post_init :: unit opti_solver)
      (PList [PObj [DField ''x'' (Some Variable) (PArray (NDArray [2] [0, 0]))],
              PObj [DField ''x'' (Some Variable) (PArray (NDArray [3] [0, 0, 0]))]])
     = Inr (post_init\<lparr>solver := new_opti\<lparr>declared := [(Variable, 2, 1), (Variable, 3, 1)]\<rparr>,
              variables := PList [PObj [DField ''x'' (Some Variable) (PMX (MXSym 0 2 1))],
                                  PObj [DField ''x'' (Some Variable) (PMX (MXSym 1 3 1))]]\<rparr>,
            PList [PObj [DField ''x'' (Some Variable) (PMX (MXSym 0 2 1))],
                   PObj [DField ''x'' (Some Variable) (PMX (MXSym 1 3 1))]])"
    by (simp add: generate_eval)
  from list_generation [where s = "post_init :: unit opti_solver"
      and v = "PList [PObj [DField ''x'' (Some Variable) (PArray (NDArray [2] [0, 0]))],
              PObj [DField ''x'' (Some Variable) (PArray (NDArray [3] [0, 0, 0]))]]"
      and xs = "[PObj [DField ''x'' (Some Variable) (PArray (NDArray [2] [0, 0]))],
              PObj [DField ''x'' (Some Variable) (PArray (NDArray [3] [0, 0, 0]))]]"] g
  show ?thesis by blast
qed

subsection \<open>Structures of plain data\<close>

lemma generate_fields_plain:
  "list_all (\<lambda>f. fmeta f = None \<and> \<not> is_optimization_object (fvalue f)
       \<and> \<not> list_of_optimization_objects (fvalue f)) fs \<Longrightarrow>
   generate_fields s fs = Inr (s, fs)"
proof (induction fs)
  case Nil
  then show ?case by simp
next
  case (Cons f fs)
  obtain n m v where f: "f = DField n m v" by (cases f)
  from Cons.prems f have "generate_field s f = Inr (s, f)" by simp
  moreover from Cons have "generate_fields s fs = Inr (s, fs)" by simp
  ultimately show ?case by simp
qed

lemma generate_plain_structure:
  "list_all (\<lambda>f. plain_data f \<and> \<not> list_of_optimization_objects (fvalue f)) fs \<Longrightarrow>
     generate_optimization_objects s (PObj fs) = Inr (s\<lparr>variables := PObj fs\<rparr>, PObj fs)
     \<and> PObj fs = deepcopy (PObj fs)"
proof -
  assume "list_all (\<lambda>f. plain_data f \<and> \<not> list_of_optimization_objects (fvalue f)) fs"
  then have "list_all (\<lambda>f. fmeta f = None \<and> \<not> is_optimization_object (fvalue f)
       \<and> \<not> list_of_optimization_objects (fvalue f)) fs"
    by (simp add: plain_data_def list_all_iff)
  from generate_fields_plain[OF this, of s] show ?thesis by (simp add: deepcopy_def)
qed

text \<open>
  Claim C9 says that \<open>generate\<close> returns a copy of any template that has only PlainData
  fields. The generator takes a list for a list of composites as soon as each of its
  elements is a composite or a list (line 93), and hands it to
  \<open>_generate_objects_from_list\<close>. A plain field that holds a list of lists of floats is
  walked down to the floats, where \<open>assert isinstance(input_structure, list)\<close> (line 135)
  fails: on the template whose only field \<open>m\<close> is untagged and holds \<open>[[1.0]]\<close>,
  \<open>generate\<close> raises \<open>AssertionError\<close>. The two other walks of the module test the
  elements with \<open>isinstance(elem, OptimizationObject)\<close> only (lines 178-180 and 304-307)
  and leave the same field alone: binding the structure as a guess changes nothing, and
  the solution structure built from it has the field as it is.
\<close>

theorem plain_list_of_lists:
  "list_all plain_data [DField ''m'' None (PList [PList [PFloat 1]])]
   \<and> generate_optimization_objects (post_init :: unit opti_solver)
        (PObj [DField ''m'' None (PList [PList [PFloat 1]])]) = Inl AssertionError
   \<and> set_initial_guess_internal (post_init :: unit opti_solver)
        (PObj [DField ''m'' None (PList [PList [PFloat 1]])])
        (PObj [DField ''m'' None (PList [PList [PFloat 1]])]) = Inr post_init
   \<and> generate_solution_output lenient_nlp ()
        (PObj [DField ''m'' None (PList [PList [PFloat 1]])])
       = Inr (PObj [DField ''m'' None (PList [PList [PFloat 1]])])"
  by (simp add: plain_data_def)

subsection \<open>Storage fields that hold a list of arrays\<close>

lemma generate_value_list_arrays:
  "list_all (\<lambda>a. length (nd_shape a) = 1 \<or> length (nd_shape a) = 2) arrs \<Longrightarrow>
   st = Variable \<or> st = Parameter \<Longrightarrow>
   \<exists>ob' hs. generate_value_list ob st name (map PArray arrs) = Inr (ob', hs)
     \<and> length hs = length arrs
     \<and> declared ob' = declared ob @ map (\<lambda>a. (st, column_form (nd_shape a) ! 0,
                                             column_form (nd_shape a) ! 1)) arrs
     \<and> initial_store ob' = initial_store ob \<and> value_store ob' = value_store ob
     \<and> objective ob' = objective ob \<and> constraints ob' = constraints ob
     \<and> (\<forall>k<length arrs.
           hs ! k = MXSym (length (declared ob) + k) (column_form (nd_shape (arrs ! k)) ! 0)
                      (column_form (nd_shape (arrs ! k)) ! 1)
           \<and> mx_shape (hs ! k) = column_form (nd_shape (arrs ! k)))"
proof (induction arrs arbitrary: ob)
  case Nil
  then show ?case by simp
next
  case (Cons a arrs)
  obtain shp d where a: "a = NDArray shp d" by (cases a)
  from Cons.prems(1) a have "(\<exists>N. shp = [N]) \<or> (\<exists>R C. shp = [R, C])"
    by (cases shp; cases "tl shp"; cases "tl (tl shp)") auto
  then obtain r c where
    cf: "column_form shp = [r, c]" and
    step: "generate_opti_object ob st name (PArray a)
       = Inr (ob\<lparr>declared := declared ob @ [(st, r, c)]\<rparr>, MXSym (length (declared ob)) r c)"
    using generate_opti_object_vector[OF Cons.prems(2), of ob name _ d]
      generate_opti_object_matrix[OF Cons.prems(2), of ob name _ _ d] a
    by auto
  define ob1 where "ob1 = ob\<lparr>declared := declared ob @ [(st, r, c)]\<rparr>"
  from Cons.prems(1) have rest: "list_all (\<lambda>a. length (nd_shape a) = 1 \<or> length (nd_shape a) = 2) arrs"
    by simp
  from Cons.IH[OF rest Cons.prems(2), of ob1] obtain ob' hs where
    g: "generate_value_list ob1 st name (map PArray arrs) = Inr (ob', hs)" and
    l: "length hs = length arrs" and
    dcl: "declared ob' = declared ob1 @ map (\<lambda>a. (st, column_form (nd_shape a) ! 0,
                                             column_form (nd_shape a) ! 1)) arrs" and
    oth: "initial_store ob' = initial_store ob1" "value_store ob' = value_store ob1"
      "objective ob' = objective ob1" "constraints ob' = constraints ob1" and
    hk: "\<forall>k<length arrs.
           hs ! k = MXSym (length (declared ob1) + k) (column_form (nd_shape (arrs ! k)) ! 0)
                      (column_form (nd_shape (arrs ! k)) ! 1)
           \<and> mx_shape (hs ! k) = column_form (nd_shape (arrs ! k))"
    by blast
  have res: "generate_value_list ob st name (map PArray (a # arrs))
      = Inr (ob', MXSym (length (declared ob)) r c # hs)"
    using step g by (simp add: ob1_def)
  have all: "\<forall>k<length (a # arrs).
           (MXSym (length (declared ob)) r c # hs) ! k
             = MXSym (length (declared ob) + k) (column_form (nd_shape ((a # arrs) ! k)) ! 0)
                      (column_form (nd_shape ((a # arrs) ! k)) ! 1)
           \<and> mx_shape ((MXSym (length (declared ob)) r c # hs) ! k)
             = column_form (nd_shape ((a # arrs) ! k))"
  proof (intro allI impI)
    fix k assume k: "k < length (a # arrs)"
    show "(MXSym (length (declared ob)) r c # hs) ! k
             = MXSym (length (declared ob) + k) (column_form (nd_shape ((a # arrs) ! k)) ! 0)
                      (column_form (nd_shape ((a # arrs) ! k)) ! 1)
           \<and> mx_shape ((MXSym (length (declared ob)) r c # hs) ! k)
             = column_form (nd_shape ((a # arrs) ! k))"
    proof (cases k)
      case 0
      with a cf show ?thesis by simp
    next
      case (Suc j)
      with k have j: "j < length arrs" by simp
      from hk j have A: "hs ! j = MXSym (length (declared ob1) + j)
            (column_form (nd_shape (arrs ! j)) ! 0) (column_form (nd_shape (arrs ! j)) ! 1)"
        and B: "mx_shape (hs ! j) = column_form (nd_shape (arrs ! j))" by blast+
      from A have A': "hs ! j = MXSym (length (declared ob) + Suc j)
            (column_form (nd_shape (arrs ! j)) ! 0) (column_form (nd_shape (arrs ! j)) ! 1)"
        by (simp add: ob1_def)
      show ?thesis unfolding Suc using A' B by (simp del: mx_shape.simps)
    qed
  qed
  have l': "length (MXSym (length (declared ob)) r c # hs) = length (a # arrs)"
    using l by simp
  have d': "declared ob' = declared ob @ map (\<lambda>a. (st, column_form (nd_shape a) ! 0,
                                             column_form (nd_shape a) ! 1)) (a # arrs)"
    using dcl a cf by (simp add: ob1_def)
  have o': "initial_store ob' = initial_store ob" "value_store ob' = value_store ob"
      "objective ob' = objective ob" "constraints ob' = constraints ob"
    using oth by (simp_all add: ob1_def)
  from res l' d' o' all show ?case by blast
qed

lemma generate_value_list_arrays_result:
  "generate_value_list ob st name (map PArray arrs) = Inr (ob', hs) \<Longrightarrow>
     length hs = length arrs
     \<and> (\<forall>k<length arrs. mx_shape (hs ! k) = column_form (nd_shape (arrs ! k)))"
proof (induction arrs arbitrary: ob hs)
  case Nil
  then show ?case by simp
next
  case (Cons a arrs)
  obtain shp d where a: "a = NDArray shp d" by (cases a)
  from Cons.prems a obtain ob1 h hs' where
    s1: "generate_opti_object ob st name (PArray (NDArray shp d)) = Inr (ob1, h)" and
    s2: "generate_value_list ob1 st name (map PArray arrs) = Inr (ob', hs')" and
    hs: "hs = h # hs'"
    by (auto split: sum.splits prod.splits)
  from generate_opti_object_array_result[OF s1]
  have h: "mx_shape h = column_form shp" by auto
  from Cons.IH[OF s2] have
    l: "length hs' = length arrs" and
    r: "\<forall>k<length arrs. mx_shape (hs' ! k) = column_form (nd_shape (arrs ! k))" by simp_all
  have "\<forall>k<length (a # arrs). mx_shape (hs ! k) = column_form (nd_shape ((a # arrs) ! k))"
  proof (intro allI impI)
    fix k assume k: "k < length (a # arrs)"
    show "mx_shape (hs ! k) = column_form (nd_shape ((a # arrs) ! k))"
    proof (cases k)
      case 0
      with h hs a show ?thesis by simp
    next
      case (Suc j)
      with k r hs show ?thesis by simp
    qed
  qed
  with l hs show ?case by simp
qed

lemma generate_field_array_list:
  assumes r: "list_all (\<lambda>a. length (nd_shape a) = 1 \<or> length (nd_shape a) = 2) arrs"
    and st: "st = Variable \<or> st = Parameter"
  shows "\<exists>s' hs. generate_field s (DField name (Some st) (PList (map PArray arrs)))
             = Inr (s', DField name (Some st) (PList (map PMX hs)))
     \<and> length hs = length arrs
     \<and> (\<forall>k<length arrs.
           hs ! k = MXSym (length (declared (solver s)) + k)
                      (column_form (nd_shape (arrs ! k)) ! 0)
                      (column_form (nd_shape (arrs ! k)) ! 1)
           \<and> mx_shape (hs ! k) = column_form (nd_shape (arrs ! k)))
     \<and> declared (solver s') = declared (solver s)
          @ map (\<lambda>a. (st, column_form (nd_shape a) ! 0, column_form (nd_shape a) ! 1)) arrs"
proof (cases arrs)
  case Nil
  have "generate_field s (DField name (Some st) (PList (map PArray [])))
      = Inr (s\<lparr>variables := PList []\<rparr>, DField name (Some st) (PList (map PMX [])))"
    by simp
  with Nil show ?thesis by (intro exI[of _ "s\<lparr>variables := PList []\<rparr>"] exI[of _ "[]"]) simp
next
  case (Cons a rest)
  from generate_value_list_arrays[OF r st, of "solver s" name] obtain ob' hs where
    g: "generate_value_list (solver s) st name (map PArray arrs) = Inr (ob', hs)" and
    l: "length hs = length arrs" and
    d: "declared ob' = declared (solver s)
          @ map (\<lambda>a. (st, column_form (nd_shape a) ! 0, column_form (nd_shape a) ! 1)) arrs" and
    h: "\<forall>k<length arrs.
           hs ! k = MXSym (length (declared (solver s)) + k)
                      (column_form (nd_shape (arrs ! k)) ! 0)
                      (column_form (nd_shape (arrs ! k)) ! 1)
           \<and> mx_shape (hs ! k) = column_form (nd_shape (arrs ! k))"
    by blast
  have "\<not> list_of_optimization_objects (PList (map PArray arrs))"
    using Cons by simp
  then have f: "generate_field s (DField name (Some st) (PList (map PArray arrs)))
      = Inr (s\<lparr>solver := ob'\<rparr>, DField name (Some st) (PList (map PMX hs)))"
    using g by (simp add: generate_storage_def asdict_array_list)
  have d': "declared (solver (s\<lparr>solver := ob'\<rparr>)) = declared (solver s)
          @ map (\<lambda>a. (st, column_form (nd_shape a) ! 0, column_form (nd_shape a) ! 1)) arrs"
    using d by simp
  from f l h d' show ?thesis by blast
qed

lemma generate_field_array_list_result:
  assumes "generate_field s (DField name (Some st) (PList (map PArray arrs))) = Inr (s', g)"
  shows "\<exists>hs. g = DField name (Some st) (PList (map PMX hs)) \<and> length hs = length arrs
     \<and> (\<forall>k<length arrs. mx_shape (hs ! k) = column_form (nd_shape (arrs ! k)))"
proof (cases arrs)
  case Nil
  with assms have "g = DField name (Some st) (PList (map PMX []))" by auto
  with Nil show ?thesis by (intro exI[of _ "[]"]) simp
next
  case (Cons a rest)
  then have "\<not> list_of_optimization_objects (PList (map PArray arrs))" by simp
  with assms obtain ob' hs where
    v: "generate_value_list (solver s) st name (map PArray arrs) = Inr (ob', hs)" and
    g: "g = DField name (Some st) (PList (map PMX hs))"
    by (auto simp: generate_storage_def asdict_array_list split: sum.splits prod.splits)
  from generate_value_list_arrays_result[OF v] g show ?thesis by blast
qed

text \<open>
  Claim C10. A field tagged as storage (Variable or Parameter) whose template value is a
  list of arrays, each of rank 1 or 2, is accepted: the body of the loop returns, and the
  field then holds a list of handles of the same length, where handle \<open>k\<close> is the symbol
  that the engine created at its \<open>k\<close>-th call from there, so a fresh one, and has the shape
  of array \<open>k\<close> in column form. The engine has declared one symbol per array, in the order
  of the list. On the whole structure: when \<open>generate\<close> returns, the field of the result
  holds such a list of handles.
\<close>

theorem storage_list:
  "(list_all (\<lambda>a. length (nd_shape a) = 1 \<or> length (nd_shape a) = 2) arrs
      \<and> (st = Variable \<or> st = Parameter) \<longrightarrow>
      (\<exists>s' hs. generate_field (s :: 'sol opti_solver)
                  (DField name (Some st) (PList (map PArray arrs)))
                 = Inr (s', DField name (Some st) (PList (map PMX hs)))
         \<and> length hs = length arrs
         \<and> (\<forall>k<length arrs.
               hs ! k = MXSym (length (declared (solver s)) + k)
                          (column_form (nd_shape (arrs ! k)) ! 0)
                          (column_form (nd_shape (arrs ! k)) ! 1)
               \<and> mx_shape (hs ! k) = column_form (nd_shape (arrs ! k)))
         \<and> declared (solver s') = declared (solver s)
              @ map (\<lambda>a. (st, column_form (nd_shape a) ! 0, column_form (nd_shape a) ! 1))
                  arrs))
   \<and> (\<forall>s' out. generate_optimization_objects s (PObj fs) = Inr (s', out) \<and> i < length fs
          \<and> fs ! i = DField name (Some st) (PList (map PArray arrs)) \<longrightarrow>
        (\<exists>gs hs. out = PObj gs \<and> length gs = length fs
           \<and> gs ! i = DField name (Some st) (PList (map PMX hs))
           \<and> length hs = length arrs
           \<and> (\<forall>k<length arrs. mx_shape (hs ! k) = column_form (nd_shape (arrs ! k)))))"
proof (intro conjI allI impI; elim conjE)
  assume "list_all (\<lambda>a. length (nd_shape a) = 1 \<or> length (nd_shape a) = 2) arrs"
    and "st = Variable \<or> st = Parameter"
  then show "\<exists>s' hs. generate_field s (DField name (Some st) (PList (map PArray arrs)))
                 = Inr (s', DField name (Some st) (PList (map PMX hs)))
         \<and> length hs = length arrs
         \<and> (\<forall>k<length arrs.
               hs ! k = MXSym (length (declared (solver s)) + k)
                          (column_form (nd_shape (arrs ! k)) ! 0)
                          (column_form (nd_shape (arrs ! k)) ! 1)
               \<and> mx_shape (hs ! k) = column_form (nd_shape (arrs ! k)))
         \<and> declared (solver s') = declared (solver s)
              @ map (\<lambda>a. (st, column_form (nd_shape a) ! 0, column_form (nd_shape a) ! 1))
                  arrs"
    by (rule generate_field_array_list)
next
  fix s' out
  assume g: "generate_optimization_objects s (PObj fs) = Inr (s', out)"
    and i: "i < length fs"
    and f: "fs ! i = DField name (Some st) (PList (map PArray arrs))"
  from generate_object_result[OF g] obtain s1 gs where
    gf: "generate_fields s fs = Inr (s1, gs)" and o: "out = PObj gs"
    and l: "length gs = length fs" by blast
  from generate_fields_nth[OF gf i] f obtain si sj :: "'sol opti_solver" where
    "generate_field si (DField name (Some st) (PList (map PArray arrs))) = Inr (sj, gs ! i)"
    by (auto simp del: generate_field.simps)
  from generate_field_array_list_result[OF this] o l
  show "\<exists>gs hs. out = PObj gs \<and> length gs = length fs
           \<and> gs ! i = DField name (Some st) (PList (map PMX hs))
           \<and> length hs = length arrs
           \<and> (\<forall>k<length arrs. mx_shape (hs ! k) = column_form (nd_shape (arrs ! k)))"
    by blast
qed

theorem storage_list_witness:
  "generate_field (post_init :: unit opti_solver)
      (DField ''p'' (Some Parameter)
         (PList (map PArray [NDArray [1, 1] [5], NDArray [3] [5, 1, 1]])))
     = Inr (post_init\<lparr>solver := new_opti\<lparr>declared := [(Parameter, 1, 1), (Parameter, 3, 1)]\<rparr>\<rparr>,
            DField ''p'' (Some Parameter) (PList [PMX (MXSym 0 1 1), PMX (MXSym 1 3 1)]))
   \<and> (\<exists>s' hs. generate_field (post_init :: unit opti_solver)
                  (DField ''p'' (Some Parameter)
                     (PList (map PArray [NDArray [1, 1] [5], NDArray [3] [5, 1, 1]])))
                 = Inr (s', DField ''p'' (Some Parameter) (PList (map PMX hs)))
         \<and> length hs = 2 \<and> mx_shape (hs ! 0) = [1, 1] \<and> mx_shape (hs ! 1) = [3, 1])"
proof -
  have e: "generate_field (post_init :: unit opti_solver)
      (DField ''p'' (Some Parameter)
         (PList (map PArray [NDArray [1, 1] [5], NDArray [3] [5, 1, 1]])))
     = Inr (post_init\<lparr>solver := new_opti\<lparr>declared := [(Parameter, 1, 1), (Parameter, 3, 1)]\<rparr>\<rparr>,
            DField ''p'' (Some Parameter) (PList [PMX (MXSym 0 1 1), PMX (MXSym 1 3 1)]))"
    by (simp add: generate_eval)
  have h: "list_all (\<lambda>a. length (nd_shape a) = 1 \<or> length (nd_shape a) = 2)
       [NDArray [1, 1] [5], NDArray [3] [5, 1, 1]] \<and> (Parameter = Variable \<or> Parameter = Parameter)"
    by simp
  from storage_list [where s = "post_init :: unit opti_solver" and name = "''p''"
      and st = Parameter and arrs = "[NDArray [1, 1] [5], NDArray [3] [5, 1, 1]]"] h
  obtain s' hs where
    a: "generate_field (post_init :: unit opti_solver)
                  (DField ''p'' (Some Parameter)
                     (PList (map PArray [NDArray [1, 1] [5], NDArray [3] [5, 1, 1]])))
                 = Inr (s', DField ''p'' (Some Parameter) (PList (map PMX hs)))" and
    b: "length hs = length [NDArray [1, 1] [5], NDArray [3] [5, 1, 1]]" and
    c: "\<forall>k<length [NDArray [1, 1] [5], NDArray [3] [5, 1, 1]].
          mx_shape (hs ! k)
            = column_form (nd_shape ([NDArray [1, 1] [5], NDArray [3] [5, 1, 1]] ! k))"
    by blast
  from c have sh: "mx_shape (hs ! 0) = [1, 1]" "mx_shape (hs ! 1) = [3, 1]" by simp_all
  from b have b': "length hs = 2" by simp
  from a b' sh have ex: "\<exists>s' hs. generate_field (post_init :: unit opti_solver)
                  (DField ''p'' (Some Parameter)
                     (PList (map PArray [NDArray [1, 1] [5], NDArray [3] [5, 1, 1]])))
                 = Inr (s', DField ''p'' (Some Parameter) (PList (map PMX hs)))
         \<and> length hs = 2 \<and> mx_shape (hs ! 0) = [1, 1] \<and> mx_shape (hs ! 1) = [3, 1]"
    by blast
  from e ex show ?thesis by (rule conjI)
qed

section \<open>Properties of the guess binder\<close>

subsection \<open>Storage fields of a guess\<close>

lemma asdict_inner_None: "asdict_inner v = PNone \<longleftrightarrow> v = PNone"
  by (cases v) (simp_all add: deepcopy_def)

lemma asdict_inner_array: "asdict_inner v = PArray g \<longleftrightarrow> v = PArray g"
  by (cases v) (simp_all add: deepcopy_def)

lemma input_shape_column_form:
  "nd_shape g \<noteq> [] \<Longrightarrow> input_shape g = Inr (column_form (nd_shape g))"
  by (cases "nd_shape g"; cases "tl (nd_shape g)") (auto simp: input_shape_def)

lemma input_shape_scalar: "nd_shape g = [] \<Longrightarrow> input_shape g = Inl IndexError"
  by (simp add: input_shape_def)

lemma guess_storage_None:
  "guess_variable s n PNone cv = Inr s" "guess_parameter s n PNone cv = Inr s"
  by (simp_all add: guess_variable_def guess_parameter_def deepcopy_def)

lemma guess_storage_not_array:
  assumes "v \<noteq> PNone" "\<forall>g. v \<noteq> PArray g"
  shows "guess_variable s n v cv
           = Inl (ValueError (''The guess for the field '' @ n @ '' is not an numpy array.''))"
    and "guess_parameter s n v cv
           = Inl (ValueError (''The guess for the field '' @ n @ '' is not an numpy array.''))"
proof -
  from assms have a: "asdict_inner v \<noteq> PNone" and b: "\<forall>g. asdict_inner v \<noteq> PArray g"
    by (simp_all add: asdict_inner_None asdict_inner_array)
  from a b show "guess_variable s n v cv
           = Inl (ValueError (''The guess for the field '' @ n @ '' is not an numpy array.''))"
    unfolding guess_variable_def Let_def by (cases "asdict_inner v") simp_all
  from a b show "guess_parameter s n v cv
           = Inl (ValueError (''The guess for the field '' @ n @ '' is not an numpy array.''))"
    unfolding guess_parameter_def Let_def by (cases "asdict_inner v") simp_all
qed

lemma guess_storage_mismatch:
  assumes "getattr cv n = Some leaf" "shape_attr leaf = Some vshape"
    "nd_shape g \<noteq> []" "vshape \<noteq> column_form (nd_shape g)"
  shows "guess_variable s n (PArray g) cv
           = Inl (ValueError (''The guess has the field '' @ n
               @ '' but its dimension does not match with the corresponding optimization variable''))"
    and "guess_parameter s n (PArray g) cv
           = Inl (ValueError (''The guess has the field '' @ n
               @ '' but its dimension does not match with the corresponding optimization variable''))"
  using assms input_shape_column_form[of g]
  by (simp_all add: guess_variable_def guess_parameter_def deepcopy_def)

lemma guess_storage_match:
  assumes "getattr cv n = Some (PMX h)" "nd_shape g \<noteq> []"
    "mx_shape h = column_form (nd_shape g)"
  shows "guess_variable s n (PArray g) cv
           = Inr (s\<lparr>solver := (solver s)\<lparr>initial_store := initial_store (solver s) @ [(h, g)]\<rparr>\<rparr>)"
    and "guess_parameter s n (PArray g) cv
           = Inr (s\<lparr>solver := (solver s)\<lparr>value_store := value_store (solver s) @ [(h, g)]\<rparr>\<rparr>)"
  using assms input_shape_column_form[of g]
  by (simp_all add: guess_variable_def guess_parameter_def deepcopy_def opti_set_initial_def
      opti_set_value_def)

lemma guess_fields_append:
  "guess_fields s (pre @ fs) cv =
     (case guess_fields s pre cv of Inl e \<Rightarrow> Inl e | Inr s1 \<Rightarrow> guess_fields s1 fs cv)"
proof (induction pre arbitrary: s)
  case Nil
  show ?case by simp
next
  case (Cons f pre)
  obtain n m v where f: "f = DField n m v" by (cases f)
  show ?case unfolding f append_Cons guess_fields.simps
    by (simp only: Cons.IH split: sum.splits) simp
qed

text \<open>
  Claim C3 says that an array in a storage field of the guess whose shape, in column form,
  differs from the shape of the symbolic leaf fails with the \<open>ValueError\<close> that names the
  field (the spec's ShapeMismatchError). A 0-d array has the shape \<open>()\<close>, which differs
  from the shape of any symbol; for it \<open>guess.shape[0]\<close> is evaluated and raises
  \<open>IndexError\<close> before the shapes are compared. In the guess below the field \<open>x\<close>
  is \<open>None\<close> and skipped, and the field \<open>p\<close> holds a 0-d array.
\<close>

theorem guess_storage_counterexample:
  "getattr (variables guess_session) ''p'' = Some (PMX (MXSym 1 1 1))
   \<and> nd_shape (NDArray [] [5]) \<noteq> mx_shape (MXSym 1 1 1)
   \<and> set_initial_guess guess_session
        (PObj [DField ''x'' (Some Variable) PNone,
               DField ''p'' (Some Parameter) (PArray (NDArray [] [5]))])
       = Inl IndexError"
  by (simp add: guess_session_def set_initial_guess_def guess_variable_def guess_parameter_def
      deepcopy_def input_shape_def)

text \<open>
  Claim C3, amended. \<open>set_initial_guess\<close> on a single structure walks the fields of the
  guess against the tracked structure, and reaches a field with the session that the fields
  before it left. For a field tagged Variable or Parameter that the walk reaches: a value
  \<open>None\<close> is skipped; a value that is neither \<open>None\<close> nor an array fails with the
  \<open>ValueError\<close> that names the field; an array of rank at least 1 whose shape in column
  form differs from the shape of the corresponding symbolic leaf fails with the
  \<open>ValueError\<close> that names the field and says the dimension does not match; an array of
  rank at least 1 whose shape in column form is the shape of the leaf is handed to the
  engine together with the leaf, by \<open>set_initial\<close> for a Variable field and by
  \<open>set_value\<close> for a Parameter field, and the walk goes on.
\<close>

theorem guess_storage:
  "set_initial_guess s (PObj (pre @ DField n m v # rest))
     = (case guess_fields s pre (variables s) of
          Inl e \<Rightarrow> Inl e
        | Inr s1 \<Rightarrow> guess_fields s1 (DField n m v # rest) (variables s))
   \<and> (m = Some Variable \<or> m = Some Parameter \<longrightarrow>
        guess_fields s1 (DField n m PNone # rest) cv = guess_fields s1 rest cv)
   \<and> ((m = Some Variable \<or> m = Some Parameter) \<and> v \<noteq> PNone \<and> (\<forall>g. v \<noteq> PArray g) \<longrightarrow>
        guess_fields s1 (DField n m v # rest) cv
          = Inl (ValueError (''The guess for the field '' @ n @ '' is not an numpy array.'')))
   \<and> ((m = Some Variable \<or> m = Some Parameter) \<and> getattr cv n = Some (PMX h)
        \<and> nd_shape g \<noteq> [] \<and> mx_shape h \<noteq> column_form (nd_shape g) \<longrightarrow>
        guess_fields s1 (DField n m (PArray g) # rest) cv
          = Inl (ValueError (''The guess has the field '' @ n
              @ '' but its dimension does not match with the corresponding optimization variable'')))
   \<and> (getattr cv n = Some (PMX h) \<and> nd_shape g \<noteq> []
        \<and> mx_shape h = column_form (nd_shape g) \<longrightarrow>
        guess_fields s1 (DField n (Some Variable) (PArray g) # rest) cv
          = guess_fields
              (s1\<lparr>solver := (solver s1)\<lparr>initial_store := initial_store (solver s1) @ [(h, g)]\<rparr>\<rparr>)
              rest cv
        \<and> guess_fields s1 (DField n (Some Parameter) (PArray g) # rest) cv
          = guess_fields
              (s1\<lparr>solver := (solver s1)\<lparr>value_store := value_store (solver s1) @ [(h, g)]\<rparr>\<rparr>)
              rest cv)"
proof -
  have c0: "set_initial_guess s (PObj (pre @ DField n m v # rest))
     = (case guess_fields s pre (variables s) of
          Inl e \<Rightarrow> Inl e
        | Inr s1 \<Rightarrow> guess_fields s1 (DField n m v # rest) (variables s))"
    unfolding set_initial_guess_def by (simp only: pyval.case set_initial_guess_internal.simps
        guess_fields_append)
  have c1: "m = Some Variable \<or> m = Some Parameter \<longrightarrow>
        guess_fields s1 (DField n m PNone # rest) cv = guess_fields s1 rest cv"
    by (auto simp: guess_storage_None)
  have c2: "(m = Some Variable \<or> m = Some Parameter) \<and> v \<noteq> PNone \<and> (\<forall>g. v \<noteq> PArray g) \<longrightarrow>
        guess_fields s1 (DField n m v # rest) cv
          = Inl (ValueError (''The guess for the field '' @ n @ '' is not an numpy array.''))"
    using guess_storage_not_array[of v s1 n cv] by auto
  have c3: "(m = Some Variable \<or> m = Some Parameter) \<and> getattr cv n = Some (PMX h)
        \<and> nd_shape g \<noteq> [] \<and> mx_shape h \<noteq> column_form (nd_shape g) \<longrightarrow>
        guess_fields s1 (DField n m (PArray g) # rest) cv
          = Inl (ValueError (''The guess has the field '' @ n
              @ '' but its dimension does not match with the corresponding optimization variable''))"
    using guess_storage_mismatch[of cv n "PMX h" "mx_shape h" g s1] by auto
  have c4: "getattr cv n = Some (PMX h) \<and> nd_shape g \<noteq> []
        \<and> mx_shape h = column_form (nd_shape g) \<longrightarrow>
        guess_fields s1 (DField n (Some Variable) (PArray g) # rest) cv
          = guess_fields
              (s1\<lparr>solver := (solver s1)\<lparr>initial_store := initial_store (solver s1) @ [(h, g)]\<rparr>\<rparr>)
              rest cv
        \<and> guess_fields s1 (DField n (Some Parameter) (PArray g) # rest) cv
          = guess_fields
              (s1\<lparr>solver := (solver s1)\<lparr>value_store := value_store (solver s1) @ [(h, g)]\<rparr>\<rparr>)
              rest cv"
    using guess_storage_match[of cv n h g s1] by auto
  from c0 c1 c2 c3 c4 show ?thesis by (intro conjI)
qed

theorem guess_storage_witness:
  "set_initial_guess guess_session
      (PObj [DField ''x'' (Some Variable) (PArray (NDArray [3] [1, 2, 3])),
             DField ''p'' (Some Parameter) (PArray (NDArray [1, 1] [5]))])
     = Inr (guess_session\<lparr>solver := (solver guess_session)
              \<lparr>initial_store := [(MXSym 0 3 1, NDArray [3] [1, 2, 3])],
               value_store := [(MXSym 1 1 1, NDArray [1, 1] [5])]\<rparr>\<rparr>)
   \<and> set_initial_guess guess_session
        (PObj [DField ''x'' (Some Variable) PNone, DField ''p'' (Some Parameter) (PFloat 5)])
       = Inl (ValueError ''The guess for the field p is not an numpy array.'')
   \<and> set_initial_guess guess_session
        (PObj [DField ''x'' (Some Variable) (PArray (NDArray [4] [1, 2, 3, 4]))])
       = Inl (ValueError
           ''The guess has the field x but its dimension does not match with the corresponding optimization variable'')"
proof -
  let ?cv = "variables guess_session"
  let ?s1 = "guess_session\<lparr>solver := (solver guess_session)
              \<lparr>initial_store := initial_store (solver guess_session)
                  @ [(MXSym 0 3 1, NDArray [3] [1, 2, 3])]\<rparr>\<rparr>"
  let ?s2 = "?s1\<lparr>solver := (solver ?s1)
              \<lparr>value_store := value_store (solver ?s1) @ [(MXSym 1 1 1, NDArray [1, 1] [5])]\<rparr>\<rparr>"
  let ?fx = "DField ''x'' (Some Variable) (PArray (NDArray [3] [1, 2, 3]))"
  let ?fp = "DField ''p'' (Some Parameter) (PArray (NDArray [1, 1] [5]))"
  have nil: "\<And>s. guess_fields s [] ?cv = Inr s" by simp
  have hx: "getattr ?cv ''x'' = Some (PMX (MXSym 0 3 1)) \<and> nd_shape (NDArray [3] [1, 2, 3]) \<noteq> []
      \<and> mx_shape (MXSym 0 3 1) = column_form (nd_shape (NDArray [3] [1, 2, 3]))"
    by (simp add: guess_session_def)
  have hp: "getattr ?cv ''p'' = Some (PMX (MXSym 1 1 1)) \<and> nd_shape (NDArray [1, 1] [5]) \<noteq> []
      \<and> mx_shape (MXSym 1 1 1) = column_form (nd_shape (NDArray [1, 1] [5]))"
    by (simp add: guess_session_def)
  note T1 = guess_storage [where s = guess_session and pre = "[]" and n = "''x''"
        and m = "Some Variable" and v = "PArray (NDArray [3] [1, 2, 3])"
        and rest = "[?fp]" and ?s1.0 = guess_session and cv = ?cv and h = "MXSym 0 3 1"
        and g = "NDArray [3] [1, 2, 3]"]
  from T1 have top1: "set_initial_guess guess_session (PObj ([] @ ?fx # [?fp]))
     = (case guess_fields guess_session [] ?cv of
          Inl e \<Rightarrow> Inl e | Inr s1 \<Rightarrow> guess_fields s1 (?fx # [?fp]) ?cv)"
    by blast
  from T1 hx have step1: "guess_fields guess_session (?fx # [?fp]) ?cv = guess_fields ?s1 [?fp] ?cv"
    by blast
  note T2 = guess_storage [where s = guess_session and pre = "[]" and n = "''p''"
        and m = "Some Parameter" and v = PNone
        and rest = "[]" and ?s1.0 = ?s1 and cv = ?cv and h = "MXSym 1 1 1"
        and g = "NDArray [1, 1] [5]"]
  from T2 hp have step2: "guess_fields ?s1 (?fp # []) ?cv = guess_fields ?s2 [] ?cv"
    by blast
  have a: "set_initial_guess guess_session (PObj [?fx, ?fp]) = Inr ?s2"
    using top1 step1 step2 by (simp only: nil sum.case append_Nil)
  have a': "?s2 = guess_session\<lparr>solver := (solver guess_session)
              \<lparr>initial_store := [(MXSym 0 3 1, NDArray [3] [1, 2, 3])],
               value_store := [(MXSym 1 1 1, NDArray [1, 1] [5])]\<rparr>\<rparr>"
    by (simp add: guess_session_def)
  let ?fn = "DField ''x'' (Some Variable) PNone"
  let ?ff = "DField ''p'' (Some Parameter) (PFloat 5)"
  note T3 = guess_storage [where s = guess_session and pre = "[?fn]" and n = "''p''"
        and m = "Some Parameter" and v = "PFloat 5" and rest = "[]"
        and ?s1.0 = guess_session and cv = ?cv and g = "NDArray [] []" and h = "MXConst 0"]
  note T3' = guess_storage [where s = guess_session and pre = "[]" and n = "''x''"
        and m = "Some Variable" and v = "PNone" and rest = "[]"
        and ?s1.0 = guess_session and cv = ?cv and g = "NDArray [] []" and h = "MXConst 0"]
  from T3 have top3: "set_initial_guess guess_session (PObj ([?fn] @ ?ff # []))
     = (case guess_fields guess_session [?fn] ?cv of
          Inl e \<Rightarrow> Inl e | Inr s1 \<Rightarrow> guess_fields s1 (?ff # []) ?cv)"
    by blast
  from T3' have skip: "guess_fields guess_session (?fn # []) ?cv = guess_fields guess_session [] ?cv"
    by blast
  have hf: "(Some Parameter = Some Variable \<or> Some Parameter = Some Parameter)
      \<and> PFloat 5 \<noteq> PNone \<and> (\<forall>g. PFloat 5 \<noteq> PArray g)" by simp
  from T3 hf have fail3: "guess_fields guess_session (?ff # []) ?cv
      = Inl (ValueError (''The guess for the field '' @ ''p'' @ '' is not an numpy array.''))"
    by blast
  have b: "set_initial_guess guess_session (PObj [?fn, ?ff])
      = Inl (ValueError (''The guess for the field '' @ ''p'' @ '' is not an numpy array.''))"
    using top3 skip fail3 by (simp only: nil sum.case append_Cons append_Nil)
  let ?f4 = "DField ''x'' (Some Variable) (PArray (NDArray [4] [1, 2, 3, 4]))"
  note T4 = guess_storage [where s = guess_session and pre = "[]" and n = "''x''"
        and m = "Some Variable" and v = "PArray (NDArray [4] [1, 2, 3, 4])" and rest = "[]"
        and ?s1.0 = guess_session and cv = ?cv and h = "MXSym 0 3 1"
        and g = "NDArray [4] [1, 2, 3, 4]"]
  have h4: "(Some Variable = Some Variable \<or> Some Variable = Some Parameter)
      \<and> getattr ?cv ''x'' = Some (PMX (MXSym 0 3 1)) \<and> nd_shape (NDArray [4] [1, 2, 3, 4]) \<noteq> []
      \<and> mx_shape (MXSym 0 3 1) \<noteq> column_form (nd_shape (NDArray [4] [1, 2, 3, 4]))"
    by (simp add: guess_session_def)
  from T4 have top4: "set_initial_guess guess_session (PObj ([] @ ?f4 # []))
     = (case guess_fields guess_session [] ?cv of
          Inl e \<Rightarrow> Inl e | Inr s1 \<Rightarrow> guess_fields s1 (?f4 # []) ?cv)"
    by blast
  from T4 h4 have fail4: "guess_fields guess_session (?f4 # []) ?cv
      = Inl (ValueError (''The guess has the field '' @ ''x''
           @ '' but its dimension does not match with the corresponding optimization variable''))"
    by blast
  have c: "set_initial_guess guess_session (PObj [?f4])
      = Inl (ValueError (''The guess has the field '' @ ''x''
           @ '' but its dimension does not match with the corresponding optimization variable''))"
    using top4 fail4 by (simp only: nil sum.case append_Nil)
  from a a' b c show ?thesis by simp
qed

subsection \<open>Lists of guesses\<close>

lemma guess_elements_indexwise:
  "guess_elements s msg gs vs i =
     (case bind_indexwise s (zip gs (drop i vs)) of
        Inl e \<Rightarrow> Inl e
      | Inr s' \<Rightarrow> if length vs - i < length gs then Inl (ValueError msg) else Inr s')"
proof (induction gs arbitrary: s i)
  case Nil
  show ?case by simp
next
  case (Cons g gs)
  show ?case
  proof (cases "length vs \<le> i")
    case True
    then show ?thesis by simp
  next
    case False
    then have d: "drop i vs = vs ! i # drop (Suc i) vs"
      by (simp add: Cons_nth_drop_Suc)
    have l: "(length vs - i < length (g # gs)) = (length vs - Suc i < length gs)"
      using False by auto
    show ?thesis
    proof (cases "set_initial_guess_internal s g (vs ! i)")
      case (Inl e)
      with False d show ?thesis by simp
    next
      case (Inr s1)
      with False d l Cons.IH[of s1 "Suc i"] show ?thesis by (simp split: sum.splits)
    qed
  qed
qed

lemma zip_take_right: "zip gs vs = zip gs (take (length gs) vs)"
proof (induction gs arbitrary: vs)
  case Nil
  show ?case by simp
next
  case (Cons g gs)
  show ?case
  proof (cases vs)
    case Nil
    then show ?thesis by simp
  next
    case (Cons v vs')
    with Cons.IH[of vs'] show ?thesis by simp
  qed
qed

text \<open>
  Claim C4. A list of guesses is bound against a list of symbolic structures index by
  index, at top level (\<open>set_initial_guess\<close> on a list, the session tracking a list) and at
  a field of the guess that holds a list of composites, the corresponding field holding a
  list. When the guess list is longer than the symbolic list, the call fails: with the
  \<open>ValueError\<close> of the loop (the spec's ListLengthError) once the guesses that have a
  symbolic element are bound, or earlier with the error of a guess that does not bind. When
  the guess list is not longer, the call does what binding the pairs does: it returns when
  each pair binds (at a field, the walk goes on with the fields that follow). The pairs are
  those of the guess list with the first symbolic elements; the symbolic elements after
  them take no part.
\<close>

theorem guess_list_lengths:
  "(variables s = PList vs \<longrightarrow>
      set_initial_guess s (PList gs)
        = (case bind_indexwise s (zip gs vs) of
             Inl e \<Rightarrow> Inl e
           | Inr s' \<Rightarrow>
               if length vs < length gs then
                 Inl (ValueError
                   ''The input guess is a list, but the specified variables structure is not'')
               else Inr s'))
   \<and> (m \<noteq> Some Variable \<and> m \<noteq> Some Parameter \<and> list_all is_optimization_object gs
        \<and> getattr cv n = Some (PList vs) \<longrightarrow>
      guess_fields s (DField n m (PList gs) # rest) cv
        = (case bind_indexwise s (zip gs vs) of
             Inl e \<Rightarrow> Inl e
           | Inr s' \<Rightarrow>
               if length vs < length gs then
                 Inl (ValueError (''The input guess is the list '' @ n
                   @ '' but the corresponding variable structure is not a list''))
               else guess_fields s' rest cv))
   \<and> (length gs \<le> length vs \<longrightarrow> zip gs vs = zip gs (take (length gs) vs))"
proof (intro conjI impI)
  assume "variables s = PList vs"
  then show "set_initial_guess s (PList gs)
        = (case bind_indexwise s (zip gs vs) of
             Inl e \<Rightarrow> Inl e
           | Inr s' \<Rightarrow>
               if length vs < length gs then
                 Inl (ValueError
                   ''The input guess is a list, but the specified variables structure is not'')
               else Inr s')"
    by (simp add: set_initial_guess_def guess_elements_indexwise split: sum.splits)
next
  assume "m \<noteq> Some Variable \<and> m \<noteq> Some Parameter \<and> list_all is_optimization_object gs
        \<and> getattr cv n = Some (PList vs)"
  then show "guess_fields s (DField n m (PList gs) # rest) cv
        = (case bind_indexwise s (zip gs vs) of
             Inl e \<Rightarrow> Inl e
           | Inr s' \<Rightarrow>
               if length vs < length gs then
                 Inl (ValueError (''The input guess is the list '' @ n
                   @ '' but the corresponding variable structure is not a list''))
               else guess_fields s' rest cv)"
    by (simp add: guess_elements_indexwise split: sum.splits)
next
  show "zip gs vs = zip gs (take (length gs) vs)" by (rule zip_take_right)
qed

theorem guess_list_lengths_witness:
  "set_initial_guess list_session
      (PList [PObj [DField ''x'' (Some Variable) (PArray (NDArray [2] [1, 2]))]])
     = Inr (list_session\<lparr>solver := (solver list_session)
              \<lparr>initial_store := [(MXSym 0 2 1, NDArray [2] [1, 2])]\<rparr>\<rparr>)
   \<and> set_initial_guess
        (list_session\<lparr>variables := PList (take 2 (elements (variables list_session)))\<rparr>)
        (PList [PObj [DField ''x'' (Some Variable) PNone],
                PObj [DField ''x'' (Some Variable) PNone],
                PObj [DField ''x'' (Some Variable) PNone]])
       = Inl (ValueError
           ''The input guess is a list, but the specified variables structure is not'')
   \<and> guess_fields list_session
        [DField ''steps'' None (PList [PObj [DField ''x'' (Some Variable) PNone]])]
        (PObj [DField ''steps'' None (variables list_session)])
       = Inr list_session"
proof -
  let ?g1 = "PObj [DField ''x'' (Some Variable) (PArray (NDArray [2] [1, 2]))]"
  let ?vs = "[PObj [DField ''x'' (Some Variable) (PMX (MXSym 0 2 1))],
              PObj [DField ''x'' (Some Variable) (PMX (MXSym 1 2 1))],
              PObj [DField ''x'' (Some Variable) (PMX (MXSym 2 2 1))]]"
  let ?n = "PObj [DField ''x'' (Some Variable) PNone]"
  let ?s2 = "list_session\<lparr>variables := PList (take 2 (elements (variables list_session)))\<rparr>"
  have v1: "variables list_session = PList ?vs" by (simp add: list_session_def)
  have b1: "bind_indexwise list_session (zip [?g1] ?vs)
      = Inr (list_session\<lparr>solver := (solver list_session)
              \<lparr>initial_store := [(MXSym 0 2 1, NDArray [2] [1, 2])]\<rparr>\<rparr>)"
    by (simp add: list_session_def guess_variable_def deepcopy_def input_shape_def
        opti_set_initial_def)
  from guess_list_lengths [where s = list_session and vs = ?vs and gs = "[?g1]"
      and m = None and cv = PNone and n = "''''" and rest = "[]"] v1
  have "set_initial_guess list_session (PList [?g1])
        = (case bind_indexwise list_session (zip [?g1] ?vs) of
             Inl e \<Rightarrow> Inl e
           | Inr s' \<Rightarrow>
               if length ?vs < length [?g1] then
                 Inl (ValueError
                   ''The input guess is a list, but the specified variables structure is not'')
               else Inr s')"
    by blast
  then have a: "set_initial_guess list_session (PList [?g1])
     = Inr (list_session\<lparr>solver := (solver list_session)
              \<lparr>initial_store := [(MXSym 0 2 1, NDArray [2] [1, 2])]\<rparr>\<rparr>)"
    by (simp only: b1 sum.case) simp
  have v2: "variables ?s2 = PList (take 2 ?vs)" by (simp add: list_session_def)
  have b2: "bind_indexwise ?s2 (zip [?n, ?n, ?n] (take 2 ?vs)) = Inr ?s2"
    by (simp add: guess_variable_def deepcopy_def)
  from guess_list_lengths [where s = ?s2 and vs = "take 2 ?vs" and gs = "[?n, ?n, ?n]"
      and m = None and cv = PNone and n = "''''" and rest = "[]"] v2
  have "set_initial_guess ?s2 (PList [?n, ?n, ?n])
        = (case bind_indexwise ?s2 (zip [?n, ?n, ?n] (take 2 ?vs)) of
             Inl e \<Rightarrow> Inl e
           | Inr s' \<Rightarrow>
               if length (take 2 ?vs) < length [?n, ?n, ?n] then
                 Inl (ValueError
                   ''The input guess is a list, but the specified variables structure is not'')
               else Inr s')"
    by blast
  then have b: "set_initial_guess ?s2 (PList [?n, ?n, ?n])
      = Inl (ValueError
           ''The input guess is a list, but the specified variables structure is not'')"
    by (simp only: b2 sum.case) simp
  let ?cv = "PObj [DField ''steps'' None (variables list_session)]"
  have h3: "None \<noteq> Some Variable \<and> None \<noteq> Some Parameter
      \<and> list_all is_optimization_object [?n] \<and> getattr ?cv ''steps'' = Some (PList ?vs)"
    by (simp add: list_session_def)
  have b3: "bind_indexwise list_session (zip [?n] ?vs) = Inr list_session"
    by (simp add: guess_variable_def deepcopy_def)
  have nil: "guess_fields list_session [] ?cv = Inr list_session" by simp
  from guess_list_lengths [where s = list_session and vs = ?vs and gs = "[?n]"
      and m = None and cv = ?cv and n = "''steps''" and rest = "[]"] h3
  have "guess_fields list_session [DField ''steps'' None (PList [?n])] ?cv
        = (case bind_indexwise list_session (zip [?n] ?vs) of
             Inl e \<Rightarrow> Inl e
           | Inr s' \<Rightarrow>
               if length ?vs < length [?n] then
                 Inl (ValueError (''The input guess is the list '' @ ''steps''
                   @ '' but the corresponding variable structure is not a list''))
               else guess_fields s' [] ?cv)"
    by blast
  then have c: "guess_fields list_session [DField ''steps'' None (PList [?n])] ?cv
      = Inr list_session"
    by (simp only: b3 sum.case nil) simp
  from a b c show ?thesis by (intro conjI)
qed

section \<open>Properties of the generator on a store\<close>

lemma preserved_refl: "preserved h h"
  by (simp add: preserved_def)

lemma preserved_length: "preserved h h' \<Longrightarrow> length h \<le> length h'"
proof -
  assume "preserved h h'"
  then have "length (take (length h) h') = length h" by (simp add: preserved_def)
  then show ?thesis by simp
qed

lemma preserved_trans: "preserved h h1 \<Longrightarrow> preserved h1 h2 \<Longrightarrow> preserved h h2"
proof -
  assume a: "preserved h h1" and b: "preserved h1 h2"
  have "length h \<le> length h1" using a by (rule preserved_length)
  then have "take (length h) h2 = take (length h) (take (length h1) h2)"
    by (simp add: min_def)
  also have "\<dots> = take (length h) h1" using b by (simp add: preserved_def)
  also have "\<dots> = h" using a by (simp add: preserved_def)
  finally show ?thesis by (simp add: preserved_def)
qed

lemma preserved_append: "preserved h h' \<Longrightarrow> preserved h (h' @ zs)"
  using preserved_length[of h h'] by (simp add: preserved_def)

lemma preserved_update: "preserved h h' \<Longrightarrow> length h \<le> a \<Longrightarrow> preserved h (h'[a := c])"
  by (simp add: preserved_def)

lemma preserved_setattr:
  "preserved h h' \<Longrightarrow> (\<forall>a. out = HRef a \<longrightarrow> length h \<le> a) \<Longrightarrow> preserved h (setattr_h h' out name w)"
  by (cases out) (auto simp: preserved_update split: option.splits cell.splits)

lemma preserved_setitem:
  "preserved h h' \<Longrightarrow> (\<forall>a. out = HRef a \<longrightarrow> length h \<le> a) \<Longrightarrow> preserved h (setitem_h h' out i w)"
  by (cases out) (auto simp: preserved_update split: option.splits cell.splits)

lemma deepcopy_preserved:
  "preserved h (fst (deepcopy_h n h memo v))"
  "preserved h (fst (deepcopy_vals n h memo vs))"
proof (induction n h memo v and n h memo vs rule: deepcopy_h_deepcopy_vals.induct)
  case (6 n h memo a)
  show ?case
  proof (cases "map_of memo a")
    case (Some y)
    then show ?thesis by (simp add: preserved_refl)
  next
    case None
    note nm = None
    show ?thesis
    proof (cases "cell_at h a")
      case None
      with nm show ?thesis by (simp add: preserved_refl)
    next
      case (Some c)
      have base: "\<And>c. preserved h (h @ [c])" by (simp add: preserved_append preserved_refl)
      show ?thesis
      proof (cases c)
        case (CArray nd)
        with nm Some show ?thesis by (simp add: base)
      next
        case (CList xs)
        from 6(1)[OF nm Some CList] base[of "CList []"]
        have "preserved h (fst (deepcopy_vals n (h @ [CList []]) ((a, length h) # memo) xs))"
          by (rule preserved_trans[rotated])
        with nm Some CList show ?thesis
          by (auto split: prod.splits sum.splits simp: preserved_update)
      next
        case (CDict kvs)
        from 6(2)[OF nm Some CDict] base[of "CDict []"]
        have "preserved h (fst (deepcopy_vals n (h @ [CDict []]) ((a, length h) # memo) (map snd kvs)))"
          by (rule preserved_trans[rotated])
        with nm Some CDict show ?thesis
          by (auto split: prod.splits sum.splits simp: preserved_update)
      next
        case (CObj fs)
        from 6(3)[OF nm Some CObj] base[of "CObj []"]
        have "preserved h (fst (deepcopy_vals n (h @ [CObj []]) ((a, length h) # memo) (map (\<lambda>f. snd (snd f)) fs)))"
          by (rule preserved_trans[rotated])
        with nm Some CObj show ?thesis
          by (auto split: prod.splits sum.splits simp: preserved_update)
      qed
    qed
  qed
next
  case (8 n h memo v vs)
  show ?case
  proof (cases "deepcopy_h n h memo v")
    case (Pair h' r)
    with 8(1) have p1: "preserved h h'" by simp
    show ?thesis
    proof (cases r)
      case (Inl e)
      with Pair p1 show ?thesis by simp
    next
      case (Inr mw)
      obtain memo' w where mw: "mw = (memo', w)" by (cases mw)
      from 8(2)[OF Pair[symmetric] Inr mw[symmetric]]
      have "preserved h' (fst (deepcopy_vals n h' memo' vs))" .
      with p1 have "preserved h (fst (deepcopy_vals n h' memo' vs))" by (rule preserved_trans)
      with Pair Inr mw show ?thesis by (auto split: prod.splits sum.splits)
    qed
  qed
qed (simp_all add: preserved_refl)

lemma asdict_preserved:
  "preserved h (fst (asdict_h n h v))"
  "preserved h (fst (asdict_vals n h vs))"
proof (induction n h v and n h vs rule: asdict_h_asdict_vals.induct)
  case (6 n h a)
  show ?case
  proof (cases "cell_at h a")
    case None
    then show ?thesis
      using deepcopy_preserved(1)[of h n "[]" "HRef a"]
      by (auto split: prod.splits sum.splits)
  next
    case (Some c)
    show ?thesis
    proof (cases c)
      case (CArray nd)
      with Some show ?thesis
        using deepcopy_preserved(1)[of h n "[]" "HRef a"]
        by (auto split: prod.splits sum.splits)
    next
      case (CList xs)
      from 6(1)[OF Some CList] Some CList show ?thesis
        by (auto split: prod.splits sum.splits simp: preserved_append)
    next
      case (CDict kvs)
      from 6(2)[OF Some CDict] Some CDict show ?thesis
        by (auto split: prod.splits sum.splits simp: preserved_append)
    next
      case (CObj fs)
      from 6(3)[OF Some CObj] Some CObj show ?thesis
        by (auto split: prod.splits sum.splits simp: preserved_append)
    qed
  qed
next
  case (8 n h v vs)
  show ?case
  proof (cases "asdict_h n h v")
    case (Pair h' r)
    with 8(1) have p1: "preserved h h'" by simp
    show ?thesis
    proof (cases r)
      case (Inl e)
      with Pair p1 show ?thesis by simp
    next
      case (Inr w)
      from 8(2)[OF Pair[symmetric] Inr]
      have "preserved h' (fst (asdict_vals n h' vs))" .
      with p1 have "preserved h (fst (asdict_vals n h' vs))" by (rule preserved_trans)
      with Pair Inr show ?thesis by (auto split: prod.splits sum.splits)
    qed
  qed
qed (simp_all add: preserved_refl)

lemma generate_storage_preserved:
  assumes "preserved h0 h" and "\<forall>a. output = HRef a \<longrightarrow> length h0 \<le> a"
  shows "preserved h0 (fst (generate_storage_h n s h output st name il))"
proof -
  obtain h1 r where a: "asdict_h n h output = (h1, r)" by (cases "asdict_h n h output")
  have "preserved h h1" using asdict_preserved(1)[of h n "output"] a by simp
  with assms(1) have p: "preserved h0 h1" by (rule preserved_trans)
  have q: "\<And>c w. preserved h0 (setattr_h (h1 @ [c]) output name w)"
    using p assms(2) by (simp add: preserved_setattr preserved_append)
  have q': "\<And>w. preserved h0 (setattr_h h1 output name w)"
    using p assms(2) by (simp add: preserved_setattr)
  show ?thesis
    unfolding generate_storage_h_def a
    by (auto split: sum.splits option.splits prod.splits list.splits simp: p q q')
qed

lemma deepcopy_fresh:
  assumes "deepcopy_h n h [] v = (h1, Inr (memo, output))"
    and "is_object_h h v \<or> is_list_h h v"
  shows "output = HRef (length h)"
proof -
  from assms(2) obtain a where v: "v = HRef a" by (cases v) auto
  from assms(1) obtain k where n: "n = Suc k" by (cases n) auto
  from assms show ?thesis unfolding v n
    by (auto split: option.splits cell.splits prod.splits sum.splits)
qed

lemma generate_h_preserved_aux:
  "preserved h (fst (generate_h n s h v))"
  "\<forall>h0. preserved h0 h \<longrightarrow> (\<forall>a. out = HRef a \<longrightarrow> length h0 \<le> a)
      \<longrightarrow> preserved h0 (fst (generate_fields_h n s h out flds))"
  "\<forall>h0. preserved h0 h \<longrightarrow> (\<forall>a. out = HRef a \<longrightarrow> length h0 \<le> a)
      \<longrightarrow> preserved h0 (fst (generate_elements_h n s h out idxs))"
proof (induction n s h v and n s h out flds and n s h out idxs
       rule: generate_h_generate_fields_h_generate_elements_h.induct)
  case (1 s h v)
  show ?case by (simp add: preserved_refl)
next
  case (2 n s h v)
  obtain h1 r where d: "deepcopy_h n h [] v = (h1, r)" by (cases "deepcopy_h n h [] v")
  have p1: "preserved h h1" using deepcopy_preserved(1)[of h n "[]" v] d by simp
  show ?case
  proof (cases "is_object_h h v")
    case True
    show ?thesis
    proof (cases r)
      case (Inl e)
      with True d p1 show ?thesis by simp
    next
      case (Inr mo)
      obtain memo ou where mo: "mo = (memo, ou)" by (cases mo)
      have fresh: "ou = HRef (length h)"
        using deepcopy_fresh[of n h v h1 memo ou] d Inr mo True by simp
      from 2(1)[OF True d[symmetric] Inr mo[symmetric]] p1 fresh
      have "preserved h (fst (generate_fields_h n s h1 ou (fields_h h1 ou)))" by simp
      with True d Inr mo show ?thesis by (auto split: prod.splits sum.splits)
    qed
  next
    case False
    note no = False
    show ?thesis
    proof (cases "is_list_h h v")
      case False
      with no show ?thesis by (simp add: preserved_refl)
    next
      case True
      show ?thesis
      proof (cases r)
        case (Inl e)
        with no True d p1 show ?thesis by simp
      next
        case (Inr mo)
        obtain memo ou where mo: "mo = (memo, ou)" by (cases mo)
        have fresh: "ou = HRef (length h)"
          using deepcopy_fresh[of n h v h1 memo ou] d Inr mo True by simp
        have t: "\<not> \<not> is_list_h h v" using True by simp
        from 2(2)[OF no t d[symmetric] Inr mo[symmetric]] p1 fresh
        have "preserved h (fst (generate_elements_h n s h1 ou [0..<length (elements_h h1 ou)]))"
          by simp
        with no True d Inr mo show ?thesis by (auto split: prod.splits sum.splits)
      qed
    qed
  qed
next
  case (3 n s h out)
  show ?case by simp
next
  case (4 n s h out name meta rest)
  show ?case
  proof (intro allI impI)
    fix h0
    assume p0: "preserved h0 h" and fr: "\<forall>a. out = HRef a \<longrightarrow> length h0 \<le> a"
    show "preserved h0 (fst (generate_fields_h n s h out ((name, meta) # rest)))"
    proof (cases "getattr_h h out name")
      case None
      with p0 show ?thesis by simp
    next
      case (Some cv)
      define body where "body =
        (if is_object_h h cv \<or> (is_list_h h cv \<and>
              list_all (\<lambda>elem. is_object_h h elem \<or> is_list_h h elem) (elements_h h cv))
         then (case generate_h n s h cv of
                 (h', Inl e) \<Rightarrow> (h', Inl e)
               | (h', Inr (s', w)) \<Rightarrow> (setattr_h h' out name w, Inr s'))
         else (case meta of
                 Some st \<Rightarrow> generate_storage_h n s h out st name (is_list_h h cv)
               | None \<Rightarrow> (h, Inr s)))"
      have pb: "preserved h0 (fst body)"
      proof (cases "is_object_h h cv \<or> (is_list_h h cv \<and>
              list_all (\<lambda>elem. is_object_h h elem \<or> is_list_h h elem) (elements_h h cv))")
        case True
        from 4(1)[OF Some True] have "preserved h (fst (generate_h n s h cv))" .
        with p0 have g: "preserved h0 (fst (generate_h n s h cv))" by (rule preserved_trans)
        show ?thesis unfolding body_def using True g fr
          by (auto split: prod.splits sum.splits simp: preserved_setattr)
      next
        case False
        show ?thesis unfolding body_def using False p0 fr
          by (auto split: option.splits simp: generate_storage_preserved)
      qed
      obtain h' r where b: "body = (h', r)" by (cases body)
      show ?thesis
      proof (cases r)
        case (Inl e)
        with Some b pb show ?thesis by (simp add: body_def[symmetric])
      next
        case (Inr s')
        from 4(2)[OF Some b[unfolded body_def, symmetric] Inr] pb b fr
        have "preserved h0 (fst (generate_fields_h n s' h' out rest))" by simp
        with Some b Inr show ?thesis by (simp add: body_def[symmetric])
      qed
    qed
  qed
next
  case (5 n s h out)
  show ?case by simp
next
  case (6 n s h out i rest)
  show ?case
  proof (intro allI impI)
    fix h0
    assume p0: "preserved h0 h" and fr: "\<forall>a. out = HRef a \<longrightarrow> length h0 \<le> a"
    define body where "body =
      (if i < length (elements_h h out) then generate_h n s h (elements_h h out ! i)
       else (h, Inl IndexError))"
    have pb: "preserved h0 (fst body)"
    proof (cases "i < length (elements_h h out)")
      case True
      from 6(1)[OF True] p0 show ?thesis unfolding body_def using True
        by (auto intro: preserved_trans)
    next
      case False
      with p0 show ?thesis by (simp add: body_def)
    qed
    obtain h' r where b: "body = (h', r)" by (cases body)
    show "preserved h0 (fst (generate_elements_h n s h out (i # rest)))"
    proof (cases r)
      case (Inl e)
      with b pb show ?thesis by (simp add: body_def[symmetric])
    next
      case (Inr sw)
      obtain s' w where sw: "sw = (s', w)" by (cases sw)
      have "preserved h0 (setitem_h h' out i w)"
        using pb b fr by (simp add: preserved_setitem)
      with 6(2)[OF b[unfolded body_def, symmetric] Inr sw[symmetric]] fr
      have "preserved h0 (fst (generate_elements_h n s' (setitem_h h' out i w) out rest))"
        by simp
      with b Inr sw show ?thesis by (simp add: body_def[symmetric])
    qed
  qed
qed

lemma preserved_cell_at:
  assumes "preserved h h'" and "a < length h"
  shows "cell_at h' a = cell_at h a"
proof -
  from assms(1) have l: "length h \<le> length h'" by (rule preserved_length)
  from assms(1) have "take (length h) h' ! a = h ! a" by (simp add: preserved_def)
  with assms(2) have "h' ! a = h ! a" by simp
  with assms(2) l show ?thesis by (simp add: cell_at_def)
qed

lemma generate_h_fresh:
  assumes "generate_h n s h v = (h', Inr (s', out))"
  shows "out = HRef (length h) \<and> st_variables s' = out"
proof -
  from assms obtain k where n: "n = Suc k" by (cases n) auto
  show ?thesis
  proof (cases "is_object_h h v")
    case True
    with assms n obtain h1 memo where
      "deepcopy_h k h [] v = (h1, Inr (memo, out))" and "st_variables s' = out"
      by (auto split: prod.splits sum.splits)
    with deepcopy_fresh[of k h v h1 memo out] True show ?thesis by simp
  next
    case False
    with assms n have l: "is_list_h h v" by (auto split: if_splits)
    with assms n False obtain h1 memo where
      "deepcopy_h k h [] v = (h1, Inr (memo, out))" and "st_variables s' = out"
      by (auto split: prod.splits sum.splits)
    with deepcopy_fresh[of k h v h1 memo out] l show ?thesis by simp
  qed
qed

text \<open>
  Claim C7. Whatever \<open>generate_optimization_objects\<close> is given, a structure or a list,
  and whether it returns or raises, every object that existed when it was called is
  unchanged when it ends: the heap it leaves holds the cells of the heap it found, at their
  addresses and with their contents, so the caller's template reads as before. When the
  call returns, the structure returned is the copy that \<open>copy.deepcopy\<close> allocated at the
  start of the call: a new object, at an address that held nothing before, and the one the
  session tracks. All writes of the generator go to such copies.
\<close>

theorem template_unchanged:
  "preserved h (fst (generate_h n s h input_structure))
   \<and> (\<forall>a<length h. cell_at (fst (generate_h n s h input_structure)) a = cell_at h a)
   \<and> (\<forall>h' s' out. generate_h n s h input_structure = (h', Inr (s', out)) \<longrightarrow>
         out = HRef (length h) \<and> cell_at h (length h) = None \<and> out \<noteq> input_structure
         \<and> st_variables s' = out)"
proof (intro conjI allI impI)
  show p: "preserved h (fst (generate_h n s h input_structure))"
    by (rule generate_h_preserved_aux(1))
  fix a assume "a < length h"
  with p show "cell_at (fst (generate_h n s h input_structure)) a = cell_at h a"
    by (rule preserved_cell_at)
next
  fix h' s' out
  assume g: "generate_h n s h input_structure = (h', Inr (s', out))"
  from generate_h_fresh[OF g] show "out = HRef (length h)" by simp
  show "cell_at h (length h) = None" by (simp add: cell_at_def)
  from generate_h_fresh[OF g] show "st_variables s' = out" by simp
  from g obtain k where n: "n = Suc k" by (cases n) auto
  from g n have "is_object_h h input_structure \<or> is_list_h h input_structure"
    by (auto split: if_splits)
  then obtain a where "input_structure = HRef a" "a < length h"
    by (cases input_structure) (auto simp: cell_at_def split: if_splits)
  with generate_h_fresh[OF g] show "out \<noteq> input_structure" by simp
qed

lemma example_heap_run:
  "generate_h 4 new_store_solver example_heap (HRef 0)
     = (example_heap
          @ [CObj [(''x'', Some Variable, HMX (MXSym 0 2 1)), (''label'', None, HStr ''point'')],
             CArray (NDArray [2] [0, 0]), CArray (NDArray [2] [0, 0]),
             CDict [(''x'', HRef 4), (''label'', HStr ''point'')]],
        Inr (\<lparr>st_solver = new_opti\<lparr>declared := [(Variable, 2, 1)]\<rparr>, st_variables = HRef 2\<rparr>,
             HRef 2))"
  by code_simp

theorem template_unchanged_witness:
  "generate_h 4 new_store_solver example_heap (HRef 0)
     = (example_heap
          @ [CObj [(''x'', Some Variable, HMX (MXSym 0 2 1)), (''label'', None, HStr ''point'')],
             CArray (NDArray [2] [0, 0]), CArray (NDArray [2] [0, 0]),
             CDict [(''x'', HRef 4), (''label'', HStr ''point'')]],
        Inr (\<lparr>st_solver = new_opti\<lparr>declared := [(Variable, 2, 1)]\<rparr>, st_variables = HRef 2\<rparr>,
             HRef 2))
   \<and> preserved example_heap (fst (generate_h 4 new_store_solver example_heap (HRef 0)))
   \<and> cell_at (fst (generate_h 4 new_store_solver example_heap (HRef 0))) 0
       = Some (CObj [(''x'', Some Variable, HRef 1), (''label'', None, HStr ''point'')])
   \<and> cell_at (fst (generate_h 4 new_store_solver example_heap (HRef 0))) 1
       = Some (CArray (NDArray [2] [0, 0]))
   \<and> HRef 2 = HRef (length example_heap)"
proof -
  note T = template_unchanged [of example_heap 4 new_store_solver "HRef 0"]
  have l: "(0 :: nat) < length example_heap" "(1 :: nat) < length example_heap"
    by (simp_all add: example_heap_def)
  have c: "cell_at example_heap 0
       = Some (CObj [(''x'', Some Variable, HRef 1), (''label'', None, HStr ''point'')])"
    "cell_at example_heap 1 = Some (CArray (NDArray [2] [0, 0]))"
    by (simp_all add: example_heap_def cell_at_def)
  from T have p: "preserved example_heap (fst (generate_h 4 new_store_solver example_heap (HRef 0)))"
    by blast
  from T l(1) have c0: "cell_at (fst (generate_h 4 new_store_solver example_heap (HRef 0))) 0
       = cell_at example_heap 0" by blast
  from T l(2) have c1: "cell_at (fst (generate_h 4 new_store_solver example_heap (HRef 0))) 1
       = cell_at example_heap 1" by blast
  from T example_heap_run have f: "HRef 2 = HRef (length example_heap)" by blast
  from example_heap_run p c0 c1 c f show ?thesis by (simp only: simp_thms)
qed

end
